theory Spec2Isabelle
  imports Main "HOL-Library.AList"
begin

text \<open>
  The Porteight tracking proxy: the auth middleware (auth.ts), the cache client
  (dragonfly.ts), the truck fetcher (truckFetcher.ts, planetscale.ts), the Tinybird token
  generator (tinybird.ts), the proxy handler (index.ts) and the Redis connection pool
  (connectionPool.ts), as functions on explicit state, followed by the properties of the
  specification that were checked against them. Where the behaviour of a library decides
  what the code does (ioredis, Hono, the Response constructor), the text says which.
\<close>

section \<open>JavaScript values used by the proxy\<close>

text \<open>
  Strings are byte lists. Header and cookie names are ASCII, so \<open>toLowerCase\<close> only has
  to move the letters A..Z. A value of type \<open>string | undefined | null\<close> is a
  \<open>string option\<close>; it is truthy when it is present and not the empty string.
\<close>

definition toLowerCase_char :: "char \<Rightarrow> char" where
  "toLowerCase_char c =
     (case map_of (zip ''ABCDEFGHIJKLMNOPQRSTUVWXYZ'' ''abcdefghijklmnopqrstuvwxyz'') c of
        None \<Rightarrow> c
      | Some l \<Rightarrow> l)"

definition toLowerCase :: "string \<Rightarrow> string" where
  "toLowerCase s = map toLowerCase_char s"

definition startsWith :: "string \<Rightarrow> string \<Rightarrow> bool" where
  "startsWith s p = (take (length p) s = p)"

definition substring :: "string \<Rightarrow> nat \<Rightarrow> string" where
  "substring s n = drop n s"

definition truthy :: "string option \<Rightarrow> bool" where
  "truthy v = (case v of None \<Rightarrow> False | Some s \<Rightarrow> s \<noteq> [])"

text \<open>The operator \<open>a || b\<close> on such values: \<open>a\<close> when it is truthy, else \<open>b\<close>.\<close>

definition js_or :: "string option \<Rightarrow> string option \<Rightarrow> string option" where
  "js_or a b = (if truthy a then a else b)"

text \<open>
  The exceptions the code throws and catches. In the jsonwebtoken library
  \<open>TokenExpiredError\<close> and \<open>NotBeforeError\<close> are subclasses of \<open>JsonWebTokenError\<close>, which
  is what \<open>instanceof\<close> sees. An axios error carries the response status and the
  \<open>error\<close> field of the response body when the backend answered.
\<close>

datatype js_error =
    AuthError string nat
  | JsonWebTokenError string
  | TokenExpiredError string
  | NotBeforeError string
  | TinybirdError string "nat option"
  | DragonflyError string
  | PlanetScaleError string
  | AxiosError string "nat option" "string option"
  | Error string

fun message :: "js_error \<Rightarrow> string" where
  "message (AuthError m _) = m"
| "message (JsonWebTokenError m) = m"
| "message (TokenExpiredError m) = m"
| "message (NotBeforeError m) = m"
| "message (TinybirdError m _) = m"
| "message (DragonflyError m) = m"
| "message (PlanetScaleError m) = m"
| "message (AxiosError m _ _) = m"
| "message (Error m) = m"

fun instanceof_JsonWebTokenError :: "js_error \<Rightarrow> bool" where
  "instanceof_JsonWebTokenError (JsonWebTokenError _) = True"
| "instanceof_JsonWebTokenError (TokenExpiredError _) = True"
| "instanceof_JsonWebTokenError (NotBeforeError _) = True"
| "instanceof_JsonWebTokenError _ = False"

fun instanceof_TokenExpiredError :: "js_error \<Rightarrow> bool" where
  "instanceof_TokenExpiredError (TokenExpiredError _) = True"
| "instanceof_TokenExpiredError _ = False"

text \<open>\<open>n || 500\<close> on an optional status code: 0 and \<open>undefined\<close> are falsy.\<close>

definition or_500 :: "nat option \<Rightarrow> nat" where
  "or_500 n = (case n of None \<Rightarrow> 500 | Some k \<Rightarrow> if k = 0 then 500 else k)"

section \<open>Requests and responses\<close>

text \<open>
  A JSON body is either an error object, with the fields the code put into it, or the
  backend's data passed through.
\<close>

record error_json =
  error :: string
  code :: "string option"
  timestamp :: "string option"

datatype json_body =
    ErrorJson error_json
  | UpstreamData string

text \<open>
  A response is its status and its JSON body. Its headers are left out: Hono, the CORS and
  the compression middleware add their own to those the code passes.
\<close>

record response =
  res_status :: nat
  res_body :: json_body

text \<open>
  The request as Hono presents it: the cookies parsed from the Cookie header
  (\<open>getCookie\<close>), the header record of \<open>c.req.header()\<close>, whose names Hono delivers in
  lower case, and the method, path, query and body text.
\<close>

record request =
  req_method :: string
  req_path :: string
  req_query :: "(string \<times> string) list"
  req_headers :: "(string \<times> string) list"
  req_cookies :: "(string \<times> string) list"
  req_text :: string

definition getCookie :: "request \<Rightarrow> string \<Rightarrow> string option" where
  "getCookie c name = map_of (req_cookies c) name"

text \<open>\<open>c.req.header(name)\<close> looks the name up without regard to case.\<close>

definition req_header :: "request \<Rightarrow> string \<Rightarrow> string option" where
  "req_header c name = map_of (req_headers c) (toLowerCase name)"

record auth_user =
  user_userId :: string
  user_claims :: "(string \<times> string) list"

record decoded =
  decoded_userId :: "string option"
  decoded_rest :: "(string \<times> string) list"

section \<open>The Tinybird credential payload\<close>

record scope =
  scope_type :: string
  resource :: string
  fixed_params_registrationNo :: "string list"

record tinybird_payload =
  workspace_id :: string
  name :: string
  exp :: nat
  scopes :: "scope list"
  limits_rps :: nat

record upstream_response =
  up_status :: nat
  up_data :: string
  up_headers :: "(string \<times> string) list"

record outgoing =
  out_method :: string
  out_url :: string
  out_headers :: "(string \<times> string) list"
  out_data :: "string option"
  out_timeout :: nat

section \<open>The environment\<close>

text \<open>
  Everything outside the repository is a field of \<open>externals\<close>: the process environment,
  the jsonwebtoken, JSON and URL library calls, the PlanetScale driver's \<open>conn.execute\<close>
  (its rows, or none when \<open>results.rows\<close> is missing), axios, and the error, if any, with
  which a command to the cache backend fails at a given instant, once for the singleton
  client of dragonfly.ts and once for a command sent on a connection of the pool. Instants
  are milliseconds, as \<open>Date.now()\<close> gives them.
\<close>

record externals =
  process_env :: "string \<Rightarrow> string option"
  jwt_verify :: "string \<Rightarrow> string \<Rightarrow> js_error + decoded"
  jwt_sign :: "tinybird_payload \<Rightarrow> string \<Rightarrow> js_error + string"
  toISOString :: "nat \<Rightarrow> string"
  JSON_stringify :: "string list \<Rightarrow> string"
  JSON_parse :: "string \<Rightarrow> js_error + string list"
  conn_execute :: "string \<Rightarrow> nat \<Rightarrow> js_error + (string list) option"
  dragonfly_fault :: "nat \<Rightarrow> js_error option"
  pooled_command_fault :: "nat \<Rightarrow> js_error option"
  searchParams_toString :: "(string \<times> string) list \<Rightarrow> string"
  req_json :: "string \<Rightarrow> js_error + string"
  axios :: "outgoing \<Rightarrow> js_error + upstream_response"

section \<open>auth.ts: authMiddleware\<close>

text \<open>
  The token is looked for in the cookies \<open>auth_token\<close>, \<open>jwt\<close>, \<open>access_token\<close>, joined by
  \<open>||\<close>, and only when that is falsy in the Authorization header, which must start with
  \<open>Bearer \<close>; the token is then the header from position 7 on.
\<close>

definition extractToken :: "request \<Rightarrow> string option" where
  "extractToken c =
     (let token = js_or (js_or (getCookie c ''auth_token'') (getCookie c ''jwt''))
                        (getCookie c ''access_token'')
      in if \<not> truthy token then
           (let authHeader = req_header c ''Authorization''
            in if truthy authHeader \<and> startsWith (the authHeader) ''Bearer ''
               then Some (substring (the authHeader) 7) else token)
         else token)"

text \<open>
  The body of the \<open>try\<close> block: it throws, or yields the user attached to the context.
\<close>

definition authenticate :: "externals \<Rightarrow> request \<Rightarrow> js_error + auth_user" where
  "authenticate ext c =
     (let token = extractToken c in
      if \<not> truthy token then
        Inl (AuthError ''Authentication required. Please provide a valid JWT token in cookies or Authorization header.'' 401)
      else
        (let jwtSecret = process_env ext ''JWT_SECRET'' in
         if \<not> truthy jwtSecret then
           Inl (AuthError ''JWT_SECRET environment variable is not configured'' 500)
         else
           (case jwt_verify ext (the token) (the jwtSecret) of
              Inl e \<Rightarrow> Inl e
            | Inr d \<Rightarrow>
                if \<not> truthy (decoded_userId d) then
                  Inl (AuthError ''Invalid token: userId not found in JWT payload'' 401)
                else Inr \<lparr>user_userId = the (decoded_userId d), user_claims = decoded_rest d\<rparr>)))"

text \<open>The \<open>catch\<close> block: the response for each class of error, tested in the source's order.\<close>

definition auth_error_response :: "externals \<Rightarrow> nat \<Rightarrow> js_error \<Rightarrow> response" where
  "auth_error_response ext now e =
     (case e of
        AuthError m sc \<Rightarrow>
          \<lparr>res_status = sc,
           res_body = ErrorJson \<lparr>error = m, code = Some ''AUTH_ERROR'',
                                 timestamp = Some (toISOString ext now)\<rparr>\<rparr>
      | _ \<Rightarrow>
          if instanceof_JsonWebTokenError e then
            \<lparr>res_status = 401,
             res_body = ErrorJson \<lparr>error = ''Invalid authentication token format or signature'',
                                   code = Some ''INVALID_TOKEN'',
                                   timestamp = Some (toISOString ext now)\<rparr>\<rparr>
          else if instanceof_TokenExpiredError e then
            \<lparr>res_status = 401,
             res_body = ErrorJson \<lparr>error = ''Authentication token has expired. Please log in again.'',
                                   code = Some ''TOKEN_EXPIRED'',
                                   timestamp = Some (toISOString ext now)\<rparr>\<rparr>
          else
            \<lparr>res_status = 500,
             res_body = ErrorJson \<lparr>error = ''Internal authentication error'',
                                   code = Some ''AUTH_INTERNAL_ERROR'',
                                   timestamp = Some (toISOString ext now)\<rparr>\<rparr>)"

definition authMiddleware ::
  "externals \<Rightarrow> nat \<Rightarrow> request \<Rightarrow> (auth_user \<Rightarrow> response) \<Rightarrow> response" where
  "authMiddleware ext now c next =
     (case authenticate ext c of
        Inl e \<Rightarrow> auth_error_response ext now e
      | Inr user \<Rightarrow> next user)"

section \<open>index.ts: the outgoing headers\<close>

text \<open>
  The \<open>headers\<close> object starts with the new Authorization and Content-Type entries; every
  entry of the incoming record whose lower-cased name is none of authorization, host and
  cookie is then assigned into it. An object is an association list whose assignment
  replaces the value of an existing key and appends a new one.
\<close>

definition copy_header :: "(string \<times> string) list \<Rightarrow> string \<times> string \<Rightarrow> (string \<times> string) list" where
  "copy_header headers kv =
     (let lowerKey = toLowerCase (fst kv) in
      if lowerKey \<noteq> ''authorization'' \<and> lowerKey \<noteq> ''host'' \<and> lowerKey \<noteq> ''cookie''
      then AList.update (fst kv) (snd kv) headers else headers)"


definition prepareHeaders :: "string \<Rightarrow> (string \<times> string) list \<Rightarrow> (string \<times> string) list" where
  "prepareHeaders tinybirdToken requestHeaders =
     foldl copy_header
       [(''Authorization'', ''Bearer '' @ tinybirdToken), (''Content-Type'', ''application/json'')]
       requestHeaders"

section \<open>The cache backend\<close>

text \<open>
  Both Redis clients connect to \<open>DRAGONFLY_URL\<close>, so they share one keyspace. A key holds
  its value and the instant at which it expires; \<open>SETEX key seconds value\<close> sets the
  expiry \<open>seconds\<close> after the instant of the command, and \<open>GET\<close> answers a key until then.
\<close>

type_synonym redis = "string \<Rightarrow> (string \<times> nat) option"

definition redis_get :: "redis \<Rightarrow> nat \<Rightarrow> string \<Rightarrow> string option" where
  "redis_get r now k =
     (case r k of
        None \<Rightarrow> None
      | Some ve \<Rightarrow> if now < snd ve then Some (fst ve) else None)"

definition redis_setex :: "redis \<Rightarrow> nat \<Rightarrow> string \<Rightarrow> nat \<Rightarrow> string \<Rightarrow> redis" where
  "redis_setex r now k seconds v = r(k \<mapsto> (v, now + seconds * 1000))"

definition redis_del :: "redis \<Rightarrow> string \<Rightarrow> redis" where
  "redis_del r k = r(k := None)"

section \<open>dragonfly.ts: DragonflyClient\<close>

definition getToken :: "externals \<Rightarrow> redis \<Rightarrow> nat \<Rightarrow> string \<Rightarrow> js_error + string option" where
  "getToken ext r now userId =
     (let cacheKey = ''tinybird_token:'' @ userId in
      case dragonfly_fault ext now of
        Some e \<Rightarrow> Inl (DragonflyError (''Failed to get token from cache: '' @ message e))
      | None \<Rightarrow>
          (let token = redis_get r now cacheKey in
           if truthy token then Inr token else Inr None))"

definition setToken ::
  "externals \<Rightarrow> redis \<Rightarrow> nat \<Rightarrow> string \<Rightarrow> string \<Rightarrow> nat \<Rightarrow> js_error + redis" where
  "setToken ext r now userId token ttlInSeconds =
     (let cacheKey = ''tinybird_token:'' @ userId in
      case dragonfly_fault ext now of
        Some e \<Rightarrow> Inl (DragonflyError (''Failed to set token in cache: '' @ message e))
      | None \<Rightarrow> Inr (redis_setex r now cacheKey ttlInSeconds token))"

definition deleteToken :: "externals \<Rightarrow> redis \<Rightarrow> nat \<Rightarrow> string \<Rightarrow> js_error + redis" where
  "deleteToken ext r now userId =
     (let cacheKey = ''tinybird_token:'' @ userId in
      case dragonfly_fault ext now of
        Some e \<Rightarrow> Inl (DragonflyError (''Failed to delete token from cache: '' @ message e))
      | None \<Rightarrow> Inr (redis_del r cacheKey))"

section \<open>planetscale.ts: getTruckAccessForUser\<close>

definition getTruckAccessForUser :: "externals \<Rightarrow> nat \<Rightarrow> string \<Rightarrow> js_error + string list" where
  "getTruckAccessForUser ext now userId =
     (case conn_execute ext userId now of
        Inl e \<Rightarrow> Inl (PlanetScaleError (''Failed to fetch truck access: '' @ message e))
      | Inr rows \<Rightarrow>
          (case rows of
             None \<Rightarrow> Inr []
           | Some rs \<Rightarrow> if length rs = 0 then Inr [] else Inr rs))"

section \<open>truckFetcher.ts: getTruckRegistrationNos\<close>

text \<open>
  The instants at which one request reaches each of its suspension points: the credential
  lookup, the three awaits of the truck fetcher, \<open>Date.now()\<close> in the payload, and the
  credential store.
\<close>

record instants =
  at_lookup :: nat
  at_truck_get :: nat
  at_query :: nat
  at_truck_set :: nat
  at_sign :: nat
  at_store :: nat

text \<open>
  The first \<open>try\<close>: the cached list, if the cache answers with a truthy value that parses;
  every failure is logged and falls through.
\<close>

definition cachedTruckAccess :: "externals \<Rightarrow> redis \<Rightarrow> nat \<Rightarrow> string \<Rightarrow> string list option" where
  "cachedTruckAccess ext r now cacheKey =
     (case getToken ext r now cacheKey of
        Inl e \<Rightarrow> None
      | Inr cachedData \<Rightarrow>
          if truthy cachedData then
            (case JSON_parse ext (the cachedData) of
               Inl e \<Rightarrow> None
             | Inr nos \<Rightarrow> Some nos)
          else None)"

definition getTruckRegistrationNos ::
  "externals \<Rightarrow> redis \<Rightarrow> instants \<Rightarrow> string \<Rightarrow> (js_error + string list) \<times> redis" where
  "getTruckRegistrationNos ext r inst userId =
     (let cacheKey = ''truck_access:'' @ userId; cacheTTL = 300 in
      case cachedTruckAccess ext r (at_truck_get inst) cacheKey of
        Some nos \<Rightarrow> (Inr nos, r)
      | None \<Rightarrow>
          (case getTruckAccessForUser ext (at_query inst) userId of
             Inr truckRegistrationNos \<Rightarrow>
               if length truckRegistrationNos > 0 then
                 (case setToken ext r (at_truck_set inst) cacheKey
                         (JSON_stringify ext truckRegistrationNos) cacheTTL of
                    Inl e \<Rightarrow> (Inr truckRegistrationNos, r)
                  | Inr r' \<Rightarrow> (Inr truckRegistrationNos, r'))
               else (Inr truckRegistrationNos, r)
           | Inl e \<Rightarrow>
               if process_env ext ''NODE_ENV'' = Some ''development''
               then (Inr [''HT56E4521'', ''HR05G5555''], r)
               else (Inl e, r)))"

definition invalidateTruckAccessCache :: "externals \<Rightarrow> redis \<Rightarrow> nat \<Rightarrow> string \<Rightarrow> redis" where
  "invalidateTruckAccessCache ext r now userId =
     (let cacheKey = ''truck_access:'' @ userId in
      case deleteToken ext r now cacheKey of
        Inl e \<Rightarrow> r
      | Inr r' \<Rightarrow> r')"

section \<open>tinybird.ts: generateTinybirdToken\<close>

definition jwtPayload :: "string \<Rightarrow> string \<Rightarrow> nat \<Rightarrow> string list \<Rightarrow> tinybird_payload" where
  "jwtPayload tinybirdWorkspaceId userId now truckRegistrationNos =
     \<lparr>workspace_id = tinybirdWorkspaceId,
      name = ''user_'' @ userId @ ''_jwt'',
      exp = now div 1000 + 3600,
      scopes =
        [\<lparr>scope_type = ''PIPES:READ'', resource = ''truck_history_endpoint'',
          fixed_params_registrationNo = truckRegistrationNos\<rparr>,
         \<lparr>scope_type = ''PIPES:READ'', resource = ''truck_location_endpoint'',
          fixed_params_registrationNo = truckRegistrationNos\<rparr>],
      limits_rps = 1\<rparr>"

text \<open>The \<open>catch\<close> block of generateTinybirdToken: every error leaves as a TinybirdError.\<close>

definition asTinybirdError :: "js_error \<Rightarrow> js_error" where
  "asTinybirdError e =
     (case e of
        TinybirdError m sc \<Rightarrow> TinybirdError m sc
      | _ \<Rightarrow>
          if instanceof_JsonWebTokenError e
          then TinybirdError (''JWT generation error: '' @ message e) (Some 500)
          else TinybirdError (''Failed to generate Tinybird token: '' @ message e) (Some 500))"

definition generateTinybirdToken ::
  "externals \<Rightarrow> redis \<Rightarrow> instants \<Rightarrow> string \<Rightarrow> (js_error + string) \<times> redis" where
  "generateTinybirdToken ext r inst userId =
     (let tinybirdWorkspaceId = process_env ext ''TINYBIRD_WORKSPACE_ID'';
          tinybirdSigningKey = process_env ext ''TINYBIRD_SIGNING_KEY'' in
      if \<not> truthy tinybirdWorkspaceId then
        (Inl (TinybirdError ''TINYBIRD_WORKSPACE_ID environment variable is not configured'' (Some 500)), r)
      else if \<not> truthy tinybirdSigningKey then
        (Inl (TinybirdError ''TINYBIRD_SIGNING_KEY environment variable is not configured'' (Some 500)), r)
      else
        (case getTruckRegistrationNos ext r inst userId of
           (Inl e, r') \<Rightarrow> (Inl (asTinybirdError e), r')
         | (Inr truckRegistrationNos, r') \<Rightarrow>
             if length truckRegistrationNos = 0 then
               (Inl (TinybirdError (''No truck registration numbers found for user '' @ userId) (Some 404)), r')
             else
               (case jwt_sign ext
                       (jwtPayload (the tinybirdWorkspaceId) userId (at_sign inst) truckRegistrationNos)
                       (the tinybirdSigningKey) of
                  Inl e \<Rightarrow> (Inl (asTinybirdError e), r')
                | Inr token \<Rightarrow> (Inr token, r'))))"

section \<open>connectionPool.ts: RedisConnectionPool\<close>

text \<open>
  A connection is the identity of a \<open>Redis\<close> object. The pool's fields are those of the
  class: the arrays \<open>pool\<close> and \<open>available\<close>, the set \<open>inUse\<close> (in insertion order) and the
  counter \<open>creating\<close>. The methods are async: between two awaits a method runs without
  interruption, and what it still has to do after an await is kept in the state until the
  event that resumes it: the createConnection calls waiting for their ping with the caller
  they will return to, the results returned to callers that have not resumed yet, the
  acquirers polling for an available connection, the releases waiting for their ping.
  Acquirers are numbered in the order of their calls. The bounds of the configuration are
  integers: \<open>parseInt\<close> of an environment variable may be negative.
\<close>

record pool_config =
  minConnections :: int
  maxConnections :: int
  idleTimeoutMs :: int
  connectionTimeoutMs :: int

datatype caller = InitializePool | Acquire nat | Replenish

record pool_state =
  config :: pool_config
  pool :: "nat list"
  available :: "nat list"
  inUse :: "nat list"
  creating :: nat
  next_redis :: nat
  callers :: nat
  pinging :: "(nat \<times> caller) list"
  init_promises :: "(nat \<times> nat option option) list"
  init_done :: bool
  returned_to_acquire :: "(nat \<times> nat option) list"
  returned_to_release :: "nat option list"
  waiting :: "nat list"
  resolved :: "(nat \<times> nat) list"
  rejected :: "(nat \<times> js_error) list"
  release_pings :: "nat list"

text \<open>\<open>x || d\<close> on an optional number: 0, \<open>NaN\<close> and \<open>undefined\<close> give the default.\<close>

definition or_default :: "int option \<Rightarrow> int \<Rightarrow> int" where
  "or_default x d = (case x of None \<Rightarrow> d | Some n \<Rightarrow> if n = 0 then d else n)"

definition set_add :: "nat \<Rightarrow> nat list \<Rightarrow> nat list" where
  "set_add c cs = (if c \<in> set cs then cs else cs @ [c])"

text \<open>
  createConnection up to \<open>await redis.ping()\<close>: the counter goes up and a new \<open>Redis\<close> object
  sends its ping.
\<close>

definition createConnection_begin :: "caller \<Rightarrow> pool_state \<Rightarrow> pool_state" where
  "createConnection_begin who s =
     s\<lparr>creating := creating s + 1,
       next_redis := next_redis s + 1,
       pinging := pinging s @ [(next_redis s, who)]\<rparr>"

text \<open>
  createConnection after the ping. The object is made with \<open>lazyConnect: false\<close> and
  \<open>enableOfflineQueue: false\<close>, and the ping is sent in the same turn as \<open>new Redis\<close>, when
  the connection cannot be ready yet: ioredis rejects a command sent in that state when
  there is no offline queue. So the ping is always rejected, the \<open>catch\<close> block returns
  null, and the \<open>finally\<close> block takes the counter down. The null goes to the caller, which
  resumes later.
\<close>

definition createConnection_end :: "nat \<Rightarrow> pool_state \<Rightarrow> pool_state" where
  "createConnection_end redis s =
     (case map_of (pinging s) redis of
        None \<Rightarrow> s
      | Some who \<Rightarrow>
          (let result = None;
               s' = s\<lparr>creating := creating s - 1,
                       pinging := filter (\<lambda>p. fst p \<noteq> redis) (pinging s)\<rparr>
           in case who of
                InitializePool \<Rightarrow>
                  s'\<lparr>init_promises :=
                       map (\<lambda>p. if fst p = redis then (redis, Some result) else p) (init_promises s)\<rparr>
              | Acquire r \<Rightarrow> s'\<lparr>returned_to_acquire := returned_to_acquire s @ [(r, result)]\<rparr>
              | Replenish \<Rightarrow> s'\<lparr>returned_to_release := returned_to_release s @ [result]\<rparr>))"

text \<open>The constructor, with initializePool up to \<open>await Promise.all(promises)\<close>.\<close>

definition initializePool_begin :: "pool_state \<Rightarrow> pool_state" where
  "initializePool_begin s =
     (let s' = foldl (\<lambda>st i. createConnection_begin InitializePool st) s
                 [0 ..< nat (minConnections (config s))]
      in s'\<lparr>init_promises := map (\<lambda>p. (fst p, None)) (pinging s')\<rparr>)"

definition RedisConnectionPool :: "int option \<Rightarrow> int option \<Rightarrow> pool_state" where
  "RedisConnectionPool cfg_min cfg_max =
     initializePool_begin
       \<lparr>config = \<lparr>minConnections = or_default cfg_min 5, maxConnections = or_default cfg_max 50,
                  idleTimeoutMs = 30000, connectionTimeoutMs = 5000\<rparr>,
        pool = [], available = [], inUse = [], creating = 0, next_redis = 0, callers = 0,
        pinging = [], init_promises = [], init_done = False, returned_to_acquire = [],
        returned_to_release = [], waiting = [], resolved = [], rejected = [],
        release_pings = []\<rparr>"

text \<open>
  initializePool after \<open>Promise.all\<close>, which resolves once every createConnection has
  returned: each connection that is not null is pushed to \<open>pool\<close> and to \<open>available\<close>.
\<close>

definition initializePool_end :: "pool_state \<Rightarrow> pool_state" where
  "initializePool_end s =
     (if init_done s \<or> list_ex (\<lambda>p. snd p = None) (init_promises s) then s
      else
        (let connections = concat (map (\<lambda>p. case snd p of Some (Some conn) \<Rightarrow> [conn] | _ \<Rightarrow> [])
                                     (init_promises s))
         in s\<lparr>pool := pool s @ connections,
               available := available s @ connections,
               init_done := True\<rparr>))"

definition removeConnection :: "nat \<Rightarrow> pool_state \<Rightarrow> pool_state" where
  "removeConnection redis s =
     s\<lparr>pool := remove1 redis (pool s),
       available := remove1 redis (available s),
       inUse := remove1 redis (inUse s)\<rparr>"

text \<open>
  acquire up to its first await: an available connection is popped and returned; else,
  below the cap, a connection is created; else the caller polls.
\<close>

definition acquire_begin :: "pool_state \<Rightarrow> pool_state" where
  "acquire_begin s =
     (let r = callers s; s0 = s\<lparr>callers := callers s + 1\<rparr> in
      if length (available s) > 0 then
        (let conn = last (available s) in
         s0\<lparr>available := butlast (available s),
            inUse := set_add conn (inUse s),
            resolved := resolved s @ [(r, conn)]\<rparr>)
      else if int (length (pool s) + creating s) < maxConnections (config s) then
        createConnection_begin (Acquire r) s0
      else s0\<lparr>waiting := waiting s @ [r]\<rparr>)"

text \<open>acquire after \<open>await this.createConnection()\<close>.\<close>

definition acquire_resume :: "nat \<Rightarrow> pool_state \<Rightarrow> pool_state" where
  "acquire_resume r s =
     (case map_of (returned_to_acquire s) r of
        None \<Rightarrow> s
      | Some newConn \<Rightarrow>
          (let s' = s\<lparr>returned_to_acquire := filter (\<lambda>p. fst p \<noteq> r) (returned_to_acquire s)\<rparr>
           in case newConn of
                Some conn \<Rightarrow>
                  s'\<lparr>pool := pool s @ [conn],
                     inUse := set_add conn (inUse s),
                     resolved := resolved s @ [(r, conn)]\<rparr>
              | None \<Rightarrow> s'\<lparr>waiting := waiting s @ [r]\<rparr>))"

text \<open>The interval callback of a polling acquirer, every 10 ms.\<close>

definition checkInterval :: "nat \<Rightarrow> pool_state \<Rightarrow> pool_state" where
  "checkInterval r s =
     (if r \<in> set (waiting s) \<and> length (available s) > 0 then
        (let conn = last (available s) in
         s\<lparr>available := butlast (available s),
           inUse := set_add conn (inUse s),
           waiting := remove1 r (waiting s),
           resolved := resolved s @ [(r, conn)]\<rparr>)
      else s)"

text \<open>The timeout callback of a polling acquirer, after connectionTimeoutMs.\<close>

definition acquire_timeout :: "nat \<Rightarrow> pool_state \<Rightarrow> pool_state" where
  "acquire_timeout r s =
     (if r \<in> set (waiting s) then
        s\<lparr>waiting := remove1 r (waiting s),
          rejected := rejected s @ [(r, Error ''Connection pool timeout - no available connections'')]\<rparr>
      else s)"

text \<open>
  release up to the ping, and after it. The ping of a released connection is sent on a
  connection that was usable, so it may succeed or fail.
\<close>

definition release_begin :: "nat \<Rightarrow> pool_state \<Rightarrow> pool_state" where
  "release_begin redis s =
     (if redis \<in> set (inUse s) then
        s\<lparr>inUse := remove1 redis (inUse s), release_pings := release_pings s @ [redis]\<rparr>
      else s)"

definition release_end :: "nat \<Rightarrow> bool \<Rightarrow> pool_state \<Rightarrow> pool_state" where
  "release_end redis ok s =
     (if redis \<in> set (release_pings s) then
        (let s' = s\<lparr>release_pings := remove1 redis (release_pings s)\<rparr> in
         if ok then s'\<lparr>available := available s' @ [redis]\<rparr>
         else
           (let s'' = removeConnection redis s' in
            if int (length (pool s'')) < minConnections (config s'')
            then createConnection_begin Replenish s'' else s''))
      else s)"

definition release_replenished :: "pool_state \<Rightarrow> pool_state" where
  "release_replenished s =
     (case returned_to_release s of
        [] \<Rightarrow> s
      | conn # rest \<Rightarrow>
          (let s' = s\<lparr>returned_to_release := rest\<rparr> in
           case conn of
             Some c \<Rightarrow> s'\<lparr>pool := pool s @ [c], available := available s @ [c]\<rparr>
           | None \<Rightarrow> s'))"

text \<open>shutdown after the connections have quit: the three collections are emptied.\<close>

definition shutdown :: "pool_state \<Rightarrow> pool_state" where
  "shutdown s = s\<lparr>pool := [], available := [], inUse := []\<rparr>"

text \<open>What can happen to a pool, and a run of such events.\<close>

datatype pool_event =
    CreationPingRejected nat
  | InitializePoolResumes
  | AcquireCalled
  | AcquireResumes nat
  | IntervalFires nat
  | TimeoutFires nat
  | ReleaseCalled nat
  | ReleasePingSettled nat bool
  | ReplenishResumes
  | ConnectionClosed nat
  | ShutdownCompletes

fun pool_step :: "pool_state \<Rightarrow> pool_event \<Rightarrow> pool_state" where
  "pool_step s (CreationPingRejected redis) = createConnection_end redis s"
| "pool_step s InitializePoolResumes = initializePool_end s"
| "pool_step s AcquireCalled = acquire_begin s"
| "pool_step s (AcquireResumes r) = acquire_resume r s"
| "pool_step s (IntervalFires r) = checkInterval r s"
| "pool_step s (TimeoutFires r) = acquire_timeout r s"
| "pool_step s (ReleaseCalled redis) = release_begin redis s"
| "pool_step s (ReleasePingSettled redis ok) = release_end redis ok s"
| "pool_step s ReplenishResumes = release_replenished s"
| "pool_step s (ConnectionClosed redis) = removeConnection redis s"
| "pool_step s ShutdownCompletes = shutdown s"

definition pool_run :: "pool_state \<Rightarrow> pool_event list \<Rightarrow> pool_state" where
  "pool_run s events = foldl pool_step s events"



text \<open>
  One call of acquire from its beginning to its end, when nothing else happens to the
  pool meanwhile: the caller gets a connection at once, or after its createConnection
  has returned, or at a poll, or it is rejected when its timeout fires. After the timeout
  the promise is settled: the caller has its connection or its rejection.
\<close>

definition acquire :: "pool_state \<Rightarrow> (js_error + nat) \<times> pool_state" where
  "acquire s =
     (let r = callers s;
          s1 = acquire_begin s;
          s2 = (case find (\<lambda>p. snd p = Acquire r) (pinging s1) of
                  None \<Rightarrow> s1
                | Some p \<Rightarrow> acquire_resume r (createConnection_end (fst p) s1));
          s3 = acquire_timeout r (checkInterval r s2)
      in case map_of (resolved s3) r of
           Some conn \<Rightarrow> (Inr conn, s3)
         | None \<Rightarrow> (Inl (the (map_of (rejected s3) r)), s3))"

text \<open>
  The pool keeps no connection: the invariant that every state of a pool satisfies,
  with the bookkeeping that makes it inductive.
\<close>

definition starved :: "pool_state \<Rightarrow> bool" where
  "starved s =
     (pool s = [] \<and> available s = [] \<and> inUse s = [] \<and> release_pings s = [] \<and> resolved s = []
      \<and> list_all (\<lambda>p. snd p = None) (returned_to_acquire s)
      \<and> list_all (\<lambda>x. x = None) (returned_to_release s)
      \<and> list_all (\<lambda>p. snd p = None \<or> snd p = Some None) (init_promises s))"

fun called_before :: "nat \<Rightarrow> caller \<Rightarrow> bool" where
  "called_before n (Acquire r) = (r < n)"
| "called_before n _ = True"

definition numbered :: "pool_state \<Rightarrow> bool" where
  "numbered s =
     (list_all (\<lambda>p. fst p < next_redis s) (pinging s)
      \<and> list_all (\<lambda>p. called_before (callers s) (snd p)) (pinging s)
      \<and> list_all (\<lambda>p. fst p < callers s) (returned_to_acquire s)
      \<and> list_all (\<lambda>r. r < callers s) (waiting s)
      \<and> list_all (\<lambda>p. fst p < callers s) (rejected s))"

definition kept_starved :: "pool_state \<Rightarrow> bool" where
  "kept_starved s = (starved s \<and> numbered s)"

text \<open>The error with which acquire rejects the caller whose timeout fires.\<close>

definition pool_timeout :: js_error where
  "pool_timeout = Error ''Connection pool timeout - no available connections''"

section \<open>index.ts: the proxy handler\<close>

text \<open>
  The state one request leaves to the next: the keyspace, the pool, and two records that
  the code does not keep and the model adds to observe it: a counter of the calls of
  generateTinybirdToken, and the commands handed to \<open>redisPool.execute\<close>, in order.
\<close>

datatype redis_command = GET string | SETEX string nat string

fun run_command :: "redis \<Rightarrow> nat \<Rightarrow> redis_command \<Rightarrow> string option \<times> redis" where
  "run_command r now (GET k) = (redis_get r now k, r)"
| "run_command r now (SETEX k seconds v) = (None, redis_setex r now k seconds v)"

record world =
  store :: redis
  mints :: nat
  submitted :: "redis_command list"
  redisPool :: pool_state

text \<open>
  \<open>redisPool.execute\<close>: it awaits acquire, which may throw; with a connection it runs the
  command, which may throw, and releases the connection in the \<open>finally\<close> block.
\<close>

definition execute ::
  "externals \<Rightarrow> world \<Rightarrow> nat \<Rightarrow> redis_command \<Rightarrow> (js_error + string option) \<times> world" where
  "execute ext w now cmd =
     (let w1 = w\<lparr>submitted := submitted w @ [cmd]\<rparr> in
      case acquire (redisPool w) of
        (Inl e, p) \<Rightarrow> (Inl e, w1\<lparr>redisPool := p\<rparr>)
      | (Inr redis, p) \<Rightarrow>
          (case pooled_command_fault ext now of
             Some e \<Rightarrow> (Inl e, w1\<lparr>redisPool := release_begin redis p\<rparr>)
           | None \<Rightarrow>
               (case run_command (store w) now cmd of
                  (reply, r') \<Rightarrow> (Inr reply, w1\<lparr>store := r', redisPool := release_begin redis p\<rparr>))))"

text \<open>Lines 151 to 169: the lookup; an exception is logged and leaves the token null.\<close>

definition cacheLookup :: "externals \<Rightarrow> world \<Rightarrow> nat \<Rightarrow> string \<Rightarrow> string option \<times> world" where
  "cacheLookup ext w now userId =
     (case execute ext w now (GET (''tinybird_token:'' @ userId)) of
        (Inl e, w') \<Rightarrow> (None, w')
      | (Inr tinybirdToken, w') \<Rightarrow> (tinybirdToken, w'))"

text \<open>Line 177: the call of generateTinybirdToken.\<close>

definition mintToken ::
  "externals \<Rightarrow> world \<Rightarrow> instants \<Rightarrow> string \<Rightarrow> (js_error + string) \<times> world" where
  "mintToken ext w inst userId =
     (case generateTinybirdToken ext (store w) inst userId of
        (res, r') \<Rightarrow> (res, w\<lparr>store := r', mints := mints w + 1\<rparr>))"

text \<open>Lines 180 to 187: the store with a TTL of 3600 seconds; an exception is logged.\<close>

definition cacheStore :: "externals \<Rightarrow> world \<Rightarrow> nat \<Rightarrow> string \<Rightarrow> string \<Rightarrow> world" where
  "cacheStore ext w now userId tinybirdToken =
     snd (execute ext w now (SETEX (''tinybird_token:'' @ userId) 3600 tinybirdToken))"

text \<open>
  Lines 151 to 199 as one function: the credential for the user, or the error of the
  mint.
\<close>

definition getOrMint ::
  "externals \<Rightarrow> world \<Rightarrow> instants \<Rightarrow> string \<Rightarrow> (js_error + string) \<times> world" where
  "getOrMint ext w inst userId =
     (case cacheLookup ext w (at_lookup inst) userId of
        (cached, w0) \<Rightarrow>
          if truthy cached then (Inr (the cached), w0)
          else
            (case mintToken ext w0 inst userId of
               (Inl e, w') \<Rightarrow> (Inl e, w')
             | (Inr tinybirdToken, w') \<Rightarrow>
                 (Inr tinybirdToken, cacheStore ext w' (at_store inst) userId tinybirdToken)))"

text \<open>
  \<open>c.json(body, status)\<close> builds a \<open>Response\<close> with a body. The constructor throws a
  RangeError for a status outside 200 to 599 and a TypeError for a status that cannot
  have a body.
\<close>

definition null_body_status :: "nat \<Rightarrow> bool" where
  "null_body_status sc = (sc = 101 \<or> sc = 103 \<or> sc = 204 \<or> sc = 205 \<or> sc = 304)"

definition c_json :: "json_body \<Rightarrow> nat \<Rightarrow> js_error + response" where
  "c_json body sc =
     (if sc < 200 \<or> 599 < sc then Inl (Error ''RangeError: invalid status'')
      else if null_body_status sc then Inl (Error ''TypeError: response with null body status cannot have body'')
      else Inr \<lparr>res_status = sc, res_body = body\<rparr>)"

definition json_error :: "string \<Rightarrow> nat \<Rightarrow> js_error + response" where
  "json_error msg sc = c_json (ErrorJson \<lparr>error = msg, code = None, timestamp = None\<rparr>) sc"

text \<open>
  The outer \<open>catch\<close> of the handler. An exception of its own \<open>c.json\<close> leaves the handler.
\<close>

definition proxy_catch :: "js_error \<Rightarrow> js_error + response" where
  "proxy_catch e =
     (case e of
        AxiosError m st data_error \<Rightarrow>
          json_error (''Tinybird request failed: '' @ the (js_or data_error (Some m))) (or_500 st)
      | _ \<Rightarrow> json_error ''Internal server error'' 500)"

text \<open>What is computed inside the outer \<open>try\<close>: an exception goes to the outer \<open>catch\<close>.\<close>

definition in_outer_try :: "js_error + response \<Rightarrow> js_error + response" where
  "in_outer_try x = (case x of Inl e \<Rightarrow> proxy_catch e | Inr res \<Rightarrow> Inr res)"

text \<open>The \<open>catch\<close> around the mint: a TinybirdError is answered, anything else rethrown.\<close>

definition mint_catch :: "js_error \<Rightarrow> js_error + response" where
  "mint_catch e =
     (case e of
        TinybirdError m sc \<Rightarrow> in_outer_try (json_error m (or_500 sc))
      | _ \<Rightarrow> proxy_catch e)"

fun string_includes :: "string \<Rightarrow> string \<Rightarrow> bool" where
  "string_includes [] sub = (sub = [])"
| "string_includes (x # xs) sub = (startsWith (x # xs) sub \<or> string_includes xs sub)"

definition requestBody :: "externals \<Rightarrow> request \<Rightarrow> string option" where
  "requestBody ext c =
     (if req_method c \<noteq> ''GET'' \<and> req_method c \<noteq> ''HEAD'' then
        (case req_header c ''content-type'' of
           None \<Rightarrow> Some (req_text c)
         | Some contentType \<Rightarrow>
             if string_includes contentType ''application/json'' then
               (case req_json ext (req_text c) of
                  Inl e \<Rightarrow> None
                | Inr v \<Rightarrow> Some v)
             else Some (req_text c))
      else None)"

definition finalUrl :: "externals \<Rightarrow> string \<Rightarrow> request \<Rightarrow> string" where
  "finalUrl ext tinybirdApiUrl c =
     (let targetUrl = tinybirdApiUrl @ req_path c;
          searchParams = searchParams_toString ext (req_query c) in
      if searchParams \<noteq> [] then targetUrl @ ''?'' @ searchParams else targetUrl)"

text \<open>The backend's headers that are handed to \<open>c.json\<close> with its data.\<close>

definition responseHeaders :: "upstream_response \<Rightarrow> (string \<times> string) list" where
  "responseHeaders resp = filter (\<lambda>kv. toLowerCase (fst kv) \<noteq> ''set-cookie'') (up_headers resp)"

definition forwardRequest :: "externals \<Rightarrow> request \<Rightarrow> string \<Rightarrow> js_error + response" where
  "forwardRequest ext c tinybirdToken =
     (let tinybirdApiUrl = process_env ext ''TINYBIRD_API_URL'' in
      if \<not> truthy tinybirdApiUrl
      then in_outer_try (json_error ''TINYBIRD_API_URL not configured'' 500)
      else
        (case axios ext
                \<lparr>out_method = toLowerCase (req_method c),
                 out_url = finalUrl ext (the tinybirdApiUrl) c,
                 out_headers = prepareHeaders tinybirdToken (req_headers c),
                 out_data = requestBody ext c,
                 out_timeout = 30000\<rparr> of
           Inl e \<Rightarrow> proxy_catch e
         | Inr resp \<Rightarrow> in_outer_try (c_json (UpstreamData (up_data resp)) (up_status resp))))"

text \<open>The handler: its response, or the exception that leaves it.\<close>

definition proxyHandler ::
  "externals \<Rightarrow> world \<Rightarrow> instants \<Rightarrow> request \<Rightarrow> auth_user \<Rightarrow> (js_error + response) \<times> world" where
  "proxyHandler ext w inst c user =
     (case getOrMint ext w inst (user_userId user) of
        (Inl e, w') \<Rightarrow> (mint_catch e, w')
      | (Inr tinybirdToken, w') \<Rightarrow> (forwardRequest ext c tinybirdToken, w'))"

section \<open>Calls of the handler in progress\<close>

text \<open>
  The handler is an async function: it runs without interruption from one \<open>await\<close> to the
  next, and other requests run while it waits. A call in progress is at one of its
  awaits: the lookup, the mint or the store; it holds its variable \<open>tinybirdToken\<close> and,
  once it has returned, its result. \<open>resume\<close> runs a call up to its next await, with the
  same three functions that getOrMint composes.
\<close>

datatype phase = AtLookup | AtMint | AtStore | Returned

record call =
  call_inst :: instants
  call_phase :: phase
  call_token :: "string option"
  call_result :: "(js_error + string) option"

definition new_call :: "instants \<Rightarrow> call" where
  "new_call inst =
     \<lparr>call_inst = inst, call_phase = AtLookup, call_token = None, call_result = None\<rparr>"

definition resume :: "externals \<Rightarrow> string \<Rightarrow> world \<Rightarrow> call \<Rightarrow> world \<times> call" where
  "resume ext userId w k =
     (case call_phase k of
        AtLookup \<Rightarrow>
          (case cacheLookup ext w (at_lookup (call_inst k)) userId of
             (cached, w0) \<Rightarrow>
               if truthy cached
               then (w0, k\<lparr>call_phase := Returned, call_token := cached,
                            call_result := Some (Inr (the cached))\<rparr>)
               else (w0, k\<lparr>call_phase := AtMint, call_token := cached\<rparr>))
      | AtMint \<Rightarrow>
          (case mintToken ext w (call_inst k) userId of
             (Inl e, w') \<Rightarrow> (w', k\<lparr>call_phase := Returned, call_result := Some (Inl e)\<rparr>)
           | (Inr tinybirdToken, w') \<Rightarrow>
               (w', k\<lparr>call_phase := AtStore, call_token := Some tinybirdToken\<rparr>))
      | AtStore \<Rightarrow>
          (cacheStore ext w (at_store (call_inst k)) userId (the (call_token k)),
           k\<lparr>call_phase := Returned, call_result := Some (Inr (the (call_token k)))\<rparr>)
      | Returned \<Rightarrow> (w, k))"

text \<open>A schedule names, step by step, the call that is resumed.\<close>

fun interleave ::
  "externals \<Rightarrow> string \<Rightarrow> nat list \<Rightarrow> world \<times> call list \<Rightarrow> world \<times> call list" where
  "interleave ext userId [] s = s"
| "interleave ext userId (i # sched) (w, calls) =
     (if i < length calls then
        (case resume ext userId w (calls ! i) of
           (w', k') \<Rightarrow> interleave ext userId sched (w', calls[i := k']))
      else interleave ext userId sched (w, calls))"

text \<open>The calls that have been through their mint.\<close>

definition minted :: "call \<Rightarrow> bool" where
  "minted k = (call_phase k = AtStore \<or> call_phase k = Returned)"

section \<open>A concrete environment\<close>

text \<open>
  An environment on which the functions above can be run: the configuration is complete,
  the assertions \<open>jwt-u1\<close> and \<open>jwt-u2\<close> verify for the subjects u1 and u2, PlanetScale has
  two trucks for u1, none for u2 and fails for everybody else, the singleton cache client
  and the Tinybird backend answer.
\<close>

definition demo_env :: "string \<Rightarrow> string option" where
  "demo_env = map_of
     [(''JWT_SECRET'', ''secret''), (''TINYBIRD_WORKSPACE_ID'', ''ws''),
      (''TINYBIRD_SIGNING_KEY'', ''key''), (''TINYBIRD_API_URL'', ''https://api.tinybird.co'')]"

definition demo_ext :: externals where
  "demo_ext =
     \<lparr>process_env = demo_env,
      jwt_verify = (\<lambda>token secret.
         if token = ''jwt-u1'' then Inr \<lparr>decoded_userId = Some ''u1'', decoded_rest = []\<rparr>
         else if token = ''jwt-u2'' then Inr \<lparr>decoded_userId = Some ''u2'', decoded_rest = []\<rparr>
         else Inl (JsonWebTokenError ''jwt malformed'')),
      jwt_sign = (\<lambda>p k. Inr (if exp p = 4600 then ''token-A'' else ''token-B'')),
      toISOString = (\<lambda>t. ''2024-01-15T10:30:00.000Z''),
      JSON_stringify = (\<lambda>nos. ''['' @ concat (map (\<lambda>s. s @ '','') nos) @ '']''),
      JSON_parse = (\<lambda>s. if s = ''[REG1,REG2,]'' then Inr [''REG1'', ''REG2'']
                          else Inl (Error ''Unexpected token'')),
      conn_execute = (\<lambda>u t. if u = ''u1'' then Inr (Some [''REG1'', ''REG2''])
                             else if u = ''u2'' then Inr (Some [])
                             else Inl (Error ''connect ECONNREFUSED'')),
      dragonfly_fault = (\<lambda>t. None),
      pooled_command_fault = (\<lambda>t. None),
      searchParams_toString = (\<lambda>q. []),
      req_json = (\<lambda>s. Inr s),
      axios = (\<lambda>out. Inr \<lparr>up_status = 200, up_data = ''{}'', up_headers = []\<rparr>)\<rparr>"

text \<open>Instants for the truck fetcher alone: 100, 200, 400 and 500 ms after \<open>t\<close>.\<close>

definition demo_inst :: "nat \<Rightarrow> instants" where
  "demo_inst t =
     \<lparr>at_lookup = t, at_truck_get = t + 100, at_query = t + 200, at_truck_set = t + 400,
      at_sign = t + 500, at_store = t + 600\<rparr>"

text \<open>
  Instants for a request that enters the handler at \<open>t\<close>: each \<open>redisPool.execute\<close> takes the
  5000 ms of the acquire timeout, so the truck fetcher starts 5100 ms after \<open>t\<close>, the
  payload is built at 5500 ms and the store is called at 5600 ms.
\<close>

definition request_inst :: "nat \<Rightarrow> instants" where
  "request_inst t =
     \<lparr>at_lookup = t, at_truck_get = t + 5100, at_query = t + 5200, at_truck_set = t + 5400,
      at_sign = t + 5500, at_store = t + 5600\<rparr>"

text \<open>The world at start-up: nothing cached, the pool just constructed by index.ts.\<close>

definition empty_world :: world where
  "empty_world =
     \<lparr>store = Map.empty, mints = 0, submitted = [],
      redisPool = RedisConnectionPool (Some 5) (Some 50)\<rparr>"

definition demo_request :: "(string \<times> string) list \<Rightarrow> (string \<times> string) list \<Rightarrow> request" where
  "demo_request cookies hdrs =
     \<lparr>req_method = ''GET'', req_path = ''/v0/pipes/truck_history_endpoint.json'', req_query = [],
      req_headers = hdrs, req_cookies = cookies, req_text = []\<rparr>"

definition demo_user :: "string \<Rightarrow> auth_user" where
  "demo_user u = \<lparr>user_userId = u, user_claims = []\<rparr>"

text \<open>PlanetScale as for u1 until instant 1100000, and without rows for u1 from then on.\<close>

definition revoked_ext :: externals where
  "revoked_ext =
     demo_ext\<lparr>conn_execute := (\<lambda>u t. if t < 1100000 then Inr (Some [''REG1'', ''REG2''])
                                       else Inr (Some []))\<rparr>"

section \<open>Properties\<close>

lemmas demo_simps = demo_ext_def demo_env_def demo_inst_def request_inst_def empty_world_def
  demo_request_def demo_user_def revoked_ext_def
lemmas fetch_defs = generateTinybirdToken_def getTruckRegistrationNos_def cachedTruckAccess_def
  getToken_def setToken_def getTruckAccessForUser_def redis_get_def redis_setex_def truthy_def
  jwtPayload_def
lemmas respond_defs = mint_catch_def proxy_catch_def in_outer_try_def json_error_def c_json_def
  null_body_status_def or_500_def forwardRequest_def js_or_def
lemma toLowerCase_Authorization: "toLowerCase ''Authorization'' = ''authorization''"
  by (simp add: toLowerCase_def toLowerCase_char_def)

subsection \<open>The pool never holds a connection\<close>

text \<open>
  Every ping of createConnection rejects, so every createConnection returns \<open>null\<close>:
  whatever happens to a pool after its construction, \<open>pool\<close>, \<open>available\<close> and \<open>inUse\<close> stay
  empty and no caller of acquire is given a connection.
\<close>

lemma warm_up:
  "foldl (\<lambda>st i. createConnection_begin InitializePool st) s [0 ..< n] =
     s\<lparr>creating := creating s + n, next_redis := next_redis s + n,
       pinging := pinging s @ map (\<lambda>i. (next_redis s + i, InitializePool)) [0 ..< n]\<rparr>"
  by (induction n) (simp_all add: createConnection_begin_def)
lemma no_connection_created:
  "list_all (\<lambda>p. snd p = None \<or> snd p = Some None) ps \<Longrightarrow>
   concat (map (\<lambda>p. case snd p of Some (Some conn) \<Rightarrow> [conn] | _ \<Rightarrow> []) ps) = []"
  by (induction ps) auto
lemma map_of_all_None:
  "list_all (\<lambda>p. snd p = None) ps \<Longrightarrow> map_of ps r = Some x \<Longrightarrow> x = None"
  by (induction ps) (auto split: if_splits)
lemma called_before_mono: "called_before n who \<Longrightarrow> n \<le> m \<Longrightarrow> called_before m who"
  by (cases who) auto
lemma starved_RedisConnectionPool: "starved (RedisConnectionPool a b)"
  by (simp add: starved_def RedisConnectionPool_def initializePool_begin_def warm_up Let_def
        list_all_iff)
lemma numbered_RedisConnectionPool: "numbered (RedisConnectionPool a b)"
  by (simp add: numbered_def RedisConnectionPool_def initializePool_begin_def warm_up Let_def
        list_all_iff)
lemma starved_createConnection_end: "starved s \<Longrightarrow> starved (createConnection_end redis s)"
  by (auto simp: starved_def createConnection_end_def Let_def list_all_iff
           split: option.splits caller.splits)
lemma initializePool_end_starved:
  "starved s \<Longrightarrow>
   initializePool_end s =
     (if init_done s \<or> list_ex (\<lambda>p. snd p = None) (init_promises s) then s
      else s\<lparr>init_done := True\<rparr>)"
  by (simp add: starved_def initializePool_end_def no_connection_created)
lemma starved_initializePool_end: "starved s \<Longrightarrow> starved (initializePool_end s)"
  by (simp add: initializePool_end_starved) (simp add: starved_def)
lemma starved_acquire_begin: "starved s \<Longrightarrow> starved (acquire_begin s)"
  by (auto simp: starved_def acquire_begin_def createConnection_begin_def Let_def)
lemma starved_acquire_resume: "starved s \<Longrightarrow> starved (acquire_resume r s)"
  by (force simp: starved_def acquire_resume_def Let_def list_all_iff
            dest!: map_of_SomeD split: option.splits)
lemma starved_pool_step: "starved s \<Longrightarrow> starved (pool_step s e)"
proof (cases e)
  case (CreationPingRejected redis)
  then show "starved s \<Longrightarrow> starved (pool_step s e)" by (simp add: starved_createConnection_end)
next
  case InitializePoolResumes
  then show "starved s \<Longrightarrow> starved (pool_step s e)" by (simp add: starved_initializePool_end)
next
  case AcquireCalled
  then show "starved s \<Longrightarrow> starved (pool_step s e)" by (simp add: starved_acquire_begin)
next
  case (AcquireResumes r)
  then show "starved s \<Longrightarrow> starved (pool_step s e)" by (simp add: starved_acquire_resume)
next
  case (IntervalFires r)
  then show "starved s \<Longrightarrow> starved (pool_step s e)" by (simp add: starved_def checkInterval_def)
next
  case (TimeoutFires r)
  then show "starved s \<Longrightarrow> starved (pool_step s e)" by (simp add: starved_def acquire_timeout_def)
next
  case (ReleaseCalled redis)
  then show "starved s \<Longrightarrow> starved (pool_step s e)" by (simp add: starved_def release_begin_def)
next
  case (ReleasePingSettled redis ok)
  then show "starved s \<Longrightarrow> starved (pool_step s e)" by (simp add: starved_def release_end_def)
next
  case ReplenishResumes
  then show "starved s \<Longrightarrow> starved (pool_step s e)"
    by (auto simp: starved_def release_replenished_def Let_def split: list.splits option.splits)
next
  case (ConnectionClosed redis)
  then show "starved s \<Longrightarrow> starved (pool_step s e)" by (simp add: starved_def removeConnection_def)
next
  case ShutdownCompletes
  then show "starved s \<Longrightarrow> starved (pool_step s e)" by (simp add: starved_def shutdown_def)
qed
lemma starved_pool_run: "starved s \<Longrightarrow> starved (pool_run s events)"
  unfolding pool_run_def by (induction events arbitrary: s) (simp_all add: starved_pool_step)
lemma numbered_pool_step: "starved s \<Longrightarrow> numbered s \<Longrightarrow> numbered (pool_step s e)"
proof (cases e)
  case (CreationPingRejected redis)
  then show "starved s \<Longrightarrow> numbered s \<Longrightarrow> numbered (pool_step s e)"
    by (auto simp: numbered_def createConnection_end_def Let_def list_all_iff
             dest!: map_of_SomeD split: option.splits caller.splits)
next
  case InitializePoolResumes
  then show "starved s \<Longrightarrow> numbered s \<Longrightarrow> numbered (pool_step s e)"
    by (simp add: initializePool_end_starved) (simp add: numbered_def)
next
  case AcquireCalled
  then show "starved s \<Longrightarrow> numbered s \<Longrightarrow> numbered (pool_step s e)"
    by (fastforce simp: numbered_def starved_def acquire_begin_def createConnection_begin_def
          Let_def list_all_iff intro: called_before_mono[where m = "Suc (callers s)"]
          less_SucI)
next
  case (AcquireResumes r)
  then show "starved s \<Longrightarrow> numbered s \<Longrightarrow> numbered (pool_step s e)"
    by (auto simp: numbered_def acquire_resume_def Let_def list_all_iff
             dest!: map_of_SomeD split: option.splits)
next
  case (IntervalFires r)
  then show "starved s \<Longrightarrow> numbered s \<Longrightarrow> numbered (pool_step s e)"
    by (simp add: numbered_def starved_def checkInterval_def)
next
  case (TimeoutFires r)
  then show "starved s \<Longrightarrow> numbered s \<Longrightarrow> numbered (pool_step s e)"
    by (auto simp: numbered_def acquire_timeout_def list_all_iff dest: notin_set_remove1)
next
  case (ReleaseCalled redis)
  then show "starved s \<Longrightarrow> numbered s \<Longrightarrow> numbered (pool_step s e)"
    by (simp add: numbered_def starved_def release_begin_def)
next
  case (ReleasePingSettled redis ok)
  then show "starved s \<Longrightarrow> numbered s \<Longrightarrow> numbered (pool_step s e)"
    by (simp add: numbered_def starved_def release_end_def)
next
  case ReplenishResumes
  then show "starved s \<Longrightarrow> numbered s \<Longrightarrow> numbered (pool_step s e)"
    by (auto simp: numbered_def release_replenished_def Let_def split: list.splits option.splits)
next
  case (ConnectionClosed redis)
  then show "starved s \<Longrightarrow> numbered s \<Longrightarrow> numbered (pool_step s e)"
    by (simp add: numbered_def removeConnection_def)
next
  case ShutdownCompletes
  then show "starved s \<Longrightarrow> numbered s \<Longrightarrow> numbered (pool_step s e)"
    by (simp add: numbered_def shutdown_def)
qed
lemma pool_invariant_run:
  "starved s \<Longrightarrow> numbered s \<Longrightarrow> starved (pool_run s events) \<and> numbered (pool_run s events)"
  unfolding pool_run_def
  by (induction events arbitrary: s) (simp_all add: starved_pool_step numbered_pool_step)
lemma pool_invariant:
  "starved (pool_run (RedisConnectionPool a b) events)
   \<and> numbered (pool_run (RedisConnectionPool a b) events)"
  by (rule pool_invariant_run[OF starved_RedisConnectionPool numbered_RedisConnectionPool])
text \<open>
  A call of acquire on such a pool is rejected with the pool-timeout error, whether it
  started a connection of its own (below the cap) or only polled (at the cap).
\<close>

lemma find_fresh:
  "list_all (\<lambda>p. called_before r (snd p)) ps \<Longrightarrow>
   find (\<lambda>p. snd p = Acquire r) (ps @ [(n, Acquire r)]) = Some (n, Acquire r)"
  by (induction ps) auto
lemma find_waiting:
  "list_all (\<lambda>p. called_before r (snd p)) ps \<Longrightarrow> find (\<lambda>p. snd p = Acquire r) ps = None"
  by (induction ps) auto
lemma map_of_fresh: "list_all (\<lambda>p. fst p < (n :: nat)) ps \<Longrightarrow> map_of ps n = None"
  by (induction ps) auto
lemma acquire_below_cap:
  assumes "starved s" "numbered s"
      and "int (length (pool s) + creating s) < maxConnections (config s)"
  shows "rejected (snd (acquire s)) = rejected s @ [(callers s, pool_timeout)]
         \<and> fst (acquire s) = Inl pool_timeout"
  using assms
  by (simp add: acquire_def acquire_begin_def starved_def numbered_def createConnection_begin_def
        find_fresh createConnection_end_def map_of_fresh acquire_resume_def map_add_def
        checkInterval_def acquire_timeout_def pool_timeout_def Let_def)
lemma acquire_at_cap:
  assumes "starved s" "numbered s"
      and "\<not> int (length (pool s) + creating s) < maxConnections (config s)"
  shows "rejected (snd (acquire s)) = rejected s @ [(callers s, pool_timeout)]
         \<and> fst (acquire s) = Inl pool_timeout"
  using assms
  by (simp add: acquire_def acquire_begin_def starved_def numbered_def find_waiting map_of_fresh
        map_add_def checkInterval_def acquire_timeout_def pool_timeout_def Let_def)
lemma pool_run_append: "pool_run (pool_run s es) es' = pool_run s (es @ es')"
  by (simp add: pool_run_def)
lemma acquire_is_a_run: "\<exists>es. snd (acquire s) = pool_run s es"
proof (cases "find (\<lambda>p. snd p = Acquire (callers s)) (pinging (acquire_begin s))")
  case None
  then have "snd (acquire s) =
      pool_run s [AcquireCalled, IntervalFires (callers s), TimeoutFires (callers s)]"
    by (simp add: acquire_def pool_run_def Let_def split: option.splits)
  then show ?thesis by blast
next
  case (Some p)
  then have "snd (acquire s) =
      pool_run s [AcquireCalled, CreationPingRejected (fst p), AcquireResumes (callers s),
                  IntervalFires (callers s), TimeoutFires (callers s)]"
    by (simp add: acquire_def pool_run_def Let_def split: option.splits)
  then show ?thesis by blast
qed
lemma kept_starved_booted: "kept_starved (pool_run (RedisConnectionPool a b) events)"
  using pool_invariant by (simp add: kept_starved_def)
lemma kept_starved_acquire: "kept_starved s \<Longrightarrow> kept_starved (snd (acquire s))"
  using acquire_is_a_run[of s] pool_invariant_run by (auto simp: kept_starved_def)
lemma acquire_times_out: "kept_starved s \<Longrightarrow> fst (acquire s) = Inl pool_timeout"
  using acquire_below_cap acquire_at_cap by (auto simp: kept_starved_def)
subsection \<open>The handler on a pool without connections\<close>

text \<open>
  \<open>redisPool.execute\<close> throws the pool-timeout error for every command, so the lookup of
  the handler always misses, its store is always dropped, and getOrMint is one call of
  generateTinybirdToken between two commands that never reach the cache.
\<close>

lemma execute_times_out:
  assumes "kept_starved (redisPool w)"
  shows "execute ext w now cmd =
           (Inl pool_timeout,
            w\<lparr>submitted := submitted w @ [cmd], redisPool := snd (acquire (redisPool w))\<rparr>)"
  using acquire_times_out[OF assms]
  by (cases "acquire (redisPool w)") (simp add: execute_def)
lemma cacheLookup_times_out:
  assumes "kept_starved (redisPool w)"
  shows "cacheLookup ext w now userId =
           (None, w\<lparr>submitted := submitted w @ [GET (''tinybird_token:'' @ userId)],
                    redisPool := snd (acquire (redisPool w))\<rparr>)"
  by (simp add: cacheLookup_def execute_times_out[OF assms])
lemma cacheStore_times_out:
  assumes "kept_starved (redisPool w)"
  shows "cacheStore ext w now userId tok =
           w\<lparr>submitted := submitted w @ [SETEX (''tinybird_token:'' @ userId) 3600 tok],
             redisPool := snd (acquire (redisPool w))\<rparr>"
  by (simp add: cacheStore_def execute_times_out[OF assms])
lemma getOrMint_starved:
  assumes "kept_starved (redisPool w)"
  shows "fst (getOrMint ext w inst userId) = fst (generateTinybirdToken ext (store w) inst userId)
     \<and> store (snd (getOrMint ext w inst userId)) = snd (generateTinybirdToken ext (store w) inst userId)
     \<and> mints (snd (getOrMint ext w inst userId)) = mints w + 1
     \<and> submitted (snd (getOrMint ext w inst userId)) =
         submitted w @ GET (''tinybird_token:'' @ userId) #
           (case fst (generateTinybirdToken ext (store w) inst userId) of
              Inl e \<Rightarrow> []
            | Inr tok \<Rightarrow> [SETEX (''tinybird_token:'' @ userId) 3600 tok])
     \<and> kept_starved (redisPool (snd (getOrMint ext w inst userId)))"
proof -
  let ?w0 = "w\<lparr>submitted := submitted w @ [GET (''tinybird_token:'' @ userId)],
               redisPool := snd (acquire (redisPool w))\<rparr>"
  have k0: "kept_starved (redisPool ?w0)" using assms by (simp add: kept_starved_acquire)
  obtain res r' where g: "generateTinybirdToken ext (store w) inst userId = (res, r')"
    by (cases "generateTinybirdToken ext (store w) inst userId")
  show ?thesis
    using g assms
    by (cases res)
       (simp_all add: getOrMint_def cacheLookup_times_out truthy_def mintToken_def
          cacheStore_times_out kept_starved_acquire)
qed
lemma kept_starved_empty_world: "kept_starved (redisPool empty_world)"
  using kept_starved_booted[of "Some 5" "Some 50" "[]"] by (simp add: empty_world_def pool_run_def)
lemma proxyHandler_starved:
  assumes "kept_starved (redisPool w)"
  shows "fst (proxyHandler ext w inst c user) =
           (case fst (generateTinybirdToken ext (store w) inst (user_userId user)) of
              Inl e \<Rightarrow> mint_catch e
            | Inr tok \<Rightarrow> forwardRequest ext c tok)
         \<and> store (snd (proxyHandler ext w inst c user))
             = snd (generateTinybirdToken ext (store w) inst (user_userId user))
         \<and> mints (snd (proxyHandler ext w inst c user)) = mints w + 1
         \<and> kept_starved (redisPool (snd (proxyHandler ext w inst c user)))"
proof -
  let ?g = "fst (generateTinybirdToken ext (store w) inst (user_userId user))"
  note gm = getOrMint_starved[OF assms, of ext inst "user_userId user"]
  obtain w' where g: "getOrMint ext w inst (user_userId user) = (?g, w')"
    using gm by (cases "getOrMint ext w inst (user_userId user)") auto
  show ?thesis
  proof (cases ?g)
    case (Inl e)
    with gm g show ?thesis by (simp add: proxyHandler_def)
  next
    case (Inr tok)
    with gm g show ?thesis by (simp add: proxyHandler_def)
  qed
qed
subsection \<open>The size of the connection pool\<close>

subsection \<open>Calls for the same identity\<close>

text \<open>
  C1, as stated, fails: the handler keeps no record of a mint in flight. Two calls for u1:
  the first enters at instant 995000 and the second at 995550, while the first waits for
  its lookup. Both lookups fail, both calls mint, generateTinybirdToken is called twice
  and the two calls return different credentials (their \<open>exp\<close> differ by a second).
\<close>

theorem concurrent_calls_mint_twice:
  "mints (fst (interleave demo_ext ''u1'' [0, 0, 1, 1, 0, 1]
                 (empty_world, [new_call (request_inst 995000), new_call (request_inst 995550)]))) = 2
   \<and> map call_result (snd (interleave demo_ext ''u1'' [0, 0, 1, 1, 0, 1]
                 (empty_world, [new_call (request_inst 995000), new_call (request_inst 995550)])))
       = [Some (Inr ''token-A''), Some (Inr ''token-B'')]
   \<and> exp (jwtPayload ''ws'' ''u1'' (at_sign (request_inst 995000)) [''REG1'', ''REG2'']) = 4600
   \<and> exp (jwtPayload ''ws'' ''u1'' (at_sign (request_inst 995550)) [''REG1'', ''REG2'']) = 4601"
proof -
  have m0: "mints empty_world = 0" and s0: "store empty_world = Map.empty"
    by (simp_all add: empty_world_def)
  show ?thesis
    using kept_starved_empty_world m0 s0
    by (simp add: resume_def new_call_def cacheLookup_times_out cacheStore_times_out
          kept_starved_acquire mintToken_def truthy_def demo_ext_def demo_env_def
          request_inst_def fetch_defs)
qed
lemma resume_starved:
  assumes "kept_starved (redisPool w)"
  shows "kept_starved (redisPool (fst (resume ext userId w k)))
         \<and> mints (fst (resume ext userId w k)) + (if minted k then 1 else 0)
             = mints w + (if minted (snd (resume ext userId w k)) then 1 else 0)"
proof (cases "call_phase k")
  case AtLookup
  then show ?thesis
    using assms
    by (simp add: resume_def cacheLookup_times_out truthy_def minted_def kept_starved_acquire)
next
  case AtMint
  then show ?thesis
    using assms
    by (auto simp: resume_def mintToken_def minted_def split: prod.splits sum.splits)
next
  case AtStore
  then show ?thesis
    using assms
    by (simp add: resume_def cacheStore_times_out minted_def kept_starved_acquire)
next
  case Returned
  then show ?thesis using assms by (simp add: resume_def minted_def)
qed
lemma count_list_update:
  "i < length xs \<Longrightarrow>
   length (filter P (xs[i := y])) + (if P (xs ! i) then 1 else 0)
     = length (filter P xs) + (if P y then 1 else 0)"
proof (induction xs arbitrary: i)
  case Nil
  then show ?case by simp
next
  case (Cons x xs)
  then show ?case by (cases i) auto
qed
lemma interleave_mints:
  "kept_starved (redisPool w) \<Longrightarrow>
   mints (fst (interleave ext userId sched (w, calls))) + length (filter minted calls)
     = mints w + length (filter minted (snd (interleave ext userId sched (w, calls))))
   \<and> length (snd (interleave ext userId sched (w, calls))) = length calls"
proof (induction sched arbitrary: w calls)
  case Nil
  then show ?case by simp
next
  case (Cons i sched)
  show ?case
  proof (cases "i < length calls")
    case False
    then show ?thesis using Cons.IH[OF Cons.prems, of calls] by simp
  next
    case True
    obtain w' k' where r: "resume ext userId w (calls ! i) = (w', k')"
      by (cases "resume ext userId w (calls ! i)")
    from resume_starved[OF Cons.prems, of ext userId "calls ! i"] r
    have ks: "kept_starved (redisPool w')"
      and m: "mints w' + (if minted (calls ! i) then 1 else 0)
                = mints w + (if minted k' then 1 else 0)" by simp_all
    from count_list_update[OF True, of minted k']
    have c: "length (filter minted (calls[i := k'])) + (if minted (calls ! i) then 1 else 0)
               = length (filter minted calls) + (if minted k' then 1 else 0)" .
    from Cons.IH[OF ks, of "calls[i := k']"] True r m c show ?thesis
      by (simp split: if_splits)
  qed
qed
text \<open>
  C1, amended. For any number N of concurrent getOrMint calls for one identity and any
  interleaving of their steps on any pool reached from its construction: once all N calls
  have returned, generateTinybirdToken has been called N times. No call waits for the
  mint of another.
\<close>

theorem every_call_mints:
  assumes pool: "redisPool w = pool_run (RedisConnectionPool cfg_min cfg_max) events"
      and returned: "list_all (\<lambda>k. call_phase k = Returned)
                       (snd (interleave ext userId sched (w, map new_call insts)))"
  shows "mints (fst (interleave ext userId sched (w, map new_call insts)))
           = mints w + length insts"
proof -
  have ks: "kept_starved (redisPool w)" using pool kept_starved_booted by simp
  let ?cs = "snd (interleave ext userId sched (w, map new_call insts))"
  have all: "filter minted ?cs = ?cs"
    using returned by (simp add: list_all_iff minted_def)
  have none: "filter minted (map new_call insts) = []"
    by (simp add: filter_empty_conv minted_def new_call_def)
  from interleave_mints[OF ks, of ext userId sched "map new_call insts"] all none
  show ?thesis by simp
qed
theorem every_call_mints_witness:
  "redisPool empty_world = pool_run (RedisConnectionPool (Some 5) (Some 50)) []
   \<and> map call_phase (snd (interleave demo_ext ''u1'' [0, 0, 1, 1, 0, 1]
          (empty_world, map new_call [request_inst 995000, request_inst 995550])))
       = [Returned, Returned]
   \<and> mints (fst (interleave demo_ext ''u1'' [0, 0, 1, 1, 0, 1]
          (empty_world, map new_call [request_inst 995000, request_inst 995550]))) = 2"
proof -
  have p: "redisPool empty_world = pool_run (RedisConnectionPool (Some 5) (Some 50)) []"
    by (simp add: empty_world_def pool_run_def)
  have ph: "map call_phase (snd (interleave demo_ext ''u1'' [0, 0, 1, 1, 0, 1]
          (empty_world, map new_call [request_inst 995000, request_inst 995550])))
       = [Returned, Returned]"
    using kept_starved_empty_world
    by (simp add: resume_def new_call_def cacheLookup_times_out cacheStore_times_out
          kept_starved_acquire mintToken_def truthy_def demo_simps fetch_defs)
  then have r: "list_all (\<lambda>k. call_phase k = Returned)
                       (snd (interleave demo_ext ''u1'' [0, 0, 1, 1, 0, 1]
          (empty_world, map new_call [request_inst 995000, request_inst 995550])))"
    by (simp add: list_all_iff) (metis (no_types, lifting) ph imageI list.set_map set_ConsD empty_iff list.set(1) list.simps(15) insert_iff)
  have m0: "mints empty_world = 0" by (simp add: empty_world_def)
  from every_call_mints[OF p r] p ph m0 show ?thesis by simp
qed
subsection \<open>The cache TTL and the credential's expiry\<close>

text \<open>
  C2, as stated, fails. The claim: on a successful mint the credential is stored in the
  cache, with a TTL strictly shorter than its own validity. The request of u1 at instant
  995000 mints token-A, whose payload has \<open>exp\<close> 4600, that is 3600 seconds after the second
  in which it was signed; the handler submits SETEX with a TTL of 3600 seconds, which is
  not shorter; and the command fails with the pool, so that nothing is stored under
  \<open>tinybird_token:u1\<close>.
\<close>

theorem credential_not_stored:
  "fst (getOrMint demo_ext empty_world (request_inst 995000) ''u1'') = Inr ''token-A''
   \<and> jwt_sign demo_ext
        \<lparr>workspace_id = ''ws'', name = ''user_u1_jwt'', exp = 4600,
         scopes = [\<lparr>scope_type = ''PIPES:READ'', resource = ''truck_history_endpoint'',
                    fixed_params_registrationNo = [''REG1'', ''REG2'']\<rparr>,
                   \<lparr>scope_type = ''PIPES:READ'', resource = ''truck_location_endpoint'',
                    fixed_params_registrationNo = [''REG1'', ''REG2'']\<rparr>],
         limits_rps = 1\<rparr> ''key'' = Inr ''token-A''
   \<and> at_sign (request_inst 995000) div 1000 + 3600 = 4600
   \<and> submitted (snd (getOrMint demo_ext empty_world (request_inst 995000) ''u1''))
       = [GET ''tinybird_token:u1'', SETEX ''tinybird_token:u1'' 3600 ''token-A'']
   \<and> store (snd (getOrMint demo_ext empty_world (request_inst 995000) ''u1'')) ''tinybird_token:u1''
       = None"
proof -
  have s0: "store empty_world = Map.empty" and b0: "submitted empty_world = []"
    by (simp_all add: empty_world_def)
  show ?thesis
    using getOrMint_starved[OF kept_starved_empty_world, of demo_ext "request_inst 995000" "''u1''"]
      s0 b0
    by (simp add: demo_ext_def demo_env_def request_inst_def fetch_defs)
qed
lemma generateTinybirdToken_signed:
  assumes "fst (generateTinybirdToken ext r inst userId) = Inr tok"
  shows "\<exists>nos. jwt_sign ext
            \<lparr>workspace_id = the (process_env ext ''TINYBIRD_WORKSPACE_ID''),
             name = ''user_'' @ userId @ ''_jwt'',
             exp = at_sign inst div 1000 + 3600,
             scopes = [\<lparr>scope_type = ''PIPES:READ'', resource = ''truck_history_endpoint'',
                        fixed_params_registrationNo = nos\<rparr>,
                       \<lparr>scope_type = ''PIPES:READ'', resource = ''truck_location_endpoint'',
                        fixed_params_registrationNo = nos\<rparr>],
             limits_rps = 1\<rparr>
            (the (process_env ext ''TINYBIRD_SIGNING_KEY'')) = Inr tok"
  using assms
  by (auto simp: generateTinybirdToken_def jwtPayload_def Let_def
           split: if_splits prod.splits sum.splits)
text \<open>
  C2, amended. When getOrMint returns a credential, on any pool reached from its
  construction, that credential was signed by this call over a payload whose \<open>exp\<close> is the
  second of signing plus 3600, and the handler has submitted to the pool, after its
  lookup, one store command for it: SETEX on \<open>tinybird_token:<subject>\<close> with a TTL of 3600
  seconds, equal to the validity of the credential and not shorter.
\<close>

theorem store_ttl_equals_validity:
  assumes pool: "redisPool w = pool_run (RedisConnectionPool cfg_min cfg_max) events"
      and minted: "fst (getOrMint ext w inst userId) = Inr tok"
  shows "(\<exists>nos. jwt_sign ext
            \<lparr>workspace_id = the (process_env ext ''TINYBIRD_WORKSPACE_ID''),
             name = ''user_'' @ userId @ ''_jwt'',
             exp = at_sign inst div 1000 + 3600,
             scopes = [\<lparr>scope_type = ''PIPES:READ'', resource = ''truck_history_endpoint'',
                        fixed_params_registrationNo = nos\<rparr>,
                       \<lparr>scope_type = ''PIPES:READ'', resource = ''truck_location_endpoint'',
                        fixed_params_registrationNo = nos\<rparr>],
             limits_rps = 1\<rparr>
            (the (process_env ext ''TINYBIRD_SIGNING_KEY'')) = Inr tok)
         \<and> submitted (snd (getOrMint ext w inst userId))
             = submitted w @ [GET (''tinybird_token:'' @ userId),
                              SETEX (''tinybird_token:'' @ userId) 3600 tok]
         \<and> mints (snd (getOrMint ext w inst userId)) = mints w + 1"
proof -
  have ks: "kept_starved (redisPool w)" using pool kept_starved_booted by simp
  note gm = getOrMint_starved[OF ks, of ext inst userId]
  have g: "fst (generateTinybirdToken ext (store w) inst userId) = Inr tok"
    using gm minted by simp
  have rest: "submitted (snd (getOrMint ext w inst userId))
             = submitted w @ [GET (''tinybird_token:'' @ userId),
                              SETEX (''tinybird_token:'' @ userId) 3600 tok]"
              "mints (snd (getOrMint ext w inst userId)) = mints w + 1"
    using gm g by simp_all
  from generateTinybirdToken_signed[OF g] rest show ?thesis by simp
qed
theorem store_ttl_equals_validity_witness:
  "redisPool empty_world = pool_run (RedisConnectionPool (Some 5) (Some 50)) []
   \<and> fst (getOrMint demo_ext empty_world (request_inst 995000) ''u1'') = Inr ''token-A''
   \<and> submitted (snd (getOrMint demo_ext empty_world (request_inst 995000) ''u1''))
       = submitted empty_world @ [GET (''tinybird_token:'' @ ''u1''),
                                  SETEX (''tinybird_token:'' @ ''u1'') 3600 ''token-A'']"
proof -
  have p: "redisPool empty_world = pool_run (RedisConnectionPool (Some 5) (Some 50)) []"
    by (simp add: empty_world_def pool_run_def)
  have s0: "store empty_world = Map.empty" by (simp add: empty_world_def)
  have m: "fst (getOrMint demo_ext empty_world (request_inst 995000) ''u1'') = Inr ''token-A''"
    using getOrMint_starved[OF kept_starved_empty_world, of demo_ext "request_inst 995000" "''u1''"]
      s0
    by (simp add: demo_ext_def demo_env_def request_inst_def fetch_defs)
  from store_ttl_equals_validity[OF p m] p m show ?thesis by simp
qed
subsection \<open>Cache keys\<close>

text \<open>
  C3. The claim: for every subject s the credential is cached under \<open>tinybird_token:s\<close> and
  the authorized-resource set under \<open>truck_access:s\<close> with a TTL of 300 seconds. The truck
  fetcher hands its key \<open>truck_access:s\<close> to \<open>setToken\<close>, which puts \<open>tinybird_token:\<close> in front
  of it again. For the subject u1, whose two trucks are fetched and cached at instant
  1000400, the keyspace afterwards has nothing under \<open>truck_access:u1\<close>; the list is under
  \<open>tinybird_token:truck_access:u1\<close>, expiring 300 seconds later. The commands that the
  handler submits for the credential of u1 name the key \<open>tinybird_token:u1\<close>.
\<close>

theorem truck_access_key_is_prefixed_twice:
  "snd (getTruckRegistrationNos demo_ext Map.empty (demo_inst 1000000) ''u1'') ''truck_access:u1''
     = None
   \<and> snd (getTruckRegistrationNos demo_ext Map.empty (demo_inst 1000000) ''u1'')
         ''tinybird_token:truck_access:u1''
     = Some (''[REG1,REG2,]'', 1000400 + 300 * 1000)
   \<and> submitted (snd (getOrMint demo_ext empty_world (request_inst 995000) ''u1''))
     = [GET ''tinybird_token:u1'', SETEX ''tinybird_token:u1'' 3600 ''token-A'']"
proof -
  have s0: "store empty_world = Map.empty" and b0: "submitted empty_world = []"
    by (simp_all add: empty_world_def)
  show ?thesis
    using getOrMint_starved[OF kept_starved_empty_world, of demo_ext "request_inst 995000" "''u1''"]
      s0 b0
    by (simp add: demo_ext_def demo_env_def request_inst_def demo_inst_def fetch_defs)
qed
subsection \<open>An identity without authorized resources\<close>

text \<open>
  C4, as stated, fails. The claim: for every identity whose authorized-resource set is
  empty, minting fails and the response is 404. The trucks of u1 are cached by a first
  request at instant 1000400, for 300 seconds; PlanetScale has no row for u1 from instant
  1100000 on. A request of u1 at 1195000 reads the cached list at 1200100: although the
  query would now return the empty list, a credential for the two trucks is minted and
  the response is 200.
\<close>

theorem stale_truck_list_is_minted:
  "getTruckAccessForUser revoked_ext (at_query (request_inst 1195000)) ''u1'' = Inr []
   \<and> fst (generateTinybirdToken revoked_ext
            (store (snd (proxyHandler revoked_ext empty_world (request_inst 995000)
                           (demo_request [(''auth_token'', ''jwt-u1'')] []) (demo_user ''u1''))))
            (request_inst 1195000) ''u1'') = Inr ''token-B''
   \<and> fst (proxyHandler revoked_ext
            (snd (proxyHandler revoked_ext empty_world (request_inst 995000)
                    (demo_request [(''auth_token'', ''jwt-u1'')] []) (demo_user ''u1'')))
            (request_inst 1195000) (demo_request [(''auth_token'', ''jwt-u1'')] [])
            (demo_user ''u1''))
       = Inr \<lparr>res_status = 200, res_body = UpstreamData ''{}''\<rparr>"
proof -
  let ?c = "demo_request [(''auth_token'', ''jwt-u1'')] []"
  let ?w1 = "snd (proxyHandler revoked_ext empty_world (request_inst 995000) ?c (demo_user ''u1''))"
  note first = proxyHandler_starved[OF kept_starved_empty_world, of revoked_ext
                 "request_inst 995000" ?c "demo_user ''u1''"]
  have s0: "store empty_world = Map.empty" by (simp add: empty_world_def)
  have st: "store ?w1 = Map.empty(''tinybird_token:truck_access:u1'' \<mapsto> (''[REG1,REG2,]'', 1300400))"
    using first s0
    by (simp add: revoked_ext_def demo_ext_def demo_env_def demo_user_def request_inst_def
          fetch_defs)
  have ks: "kept_starved (redisPool ?w1)" using first by simp
  have "fst (generateTinybirdToken revoked_ext
               (Map.empty(''tinybird_token:truck_access:u1'' \<mapsto> (''[REG1,REG2,]'', 1300400)))
               (request_inst 1195000) ''u1'') = Inr ''token-B''"
    by (simp add: revoked_ext_def demo_ext_def demo_env_def request_inst_def fetch_defs)
  hence g: "fst (generateTinybirdToken revoked_ext (store ?w1) (request_inst 1195000) ''u1'')
             = Inr ''token-B''"
    by (simp only: st)
  have a: "getTruckAccessForUser revoked_ext (at_query (request_inst 1195000)) ''u1'' = Inr []"
    by (simp add: revoked_ext_def demo_ext_def request_inst_def getTruckAccessForUser_def)
  have "fst (proxyHandler revoked_ext ?w1 (request_inst 1195000) ?c (demo_user ''u1''))
       = Inr \<lparr>res_status = 200, res_body = UpstreamData ''{}''\<rparr>"
    using proxyHandler_starved[OF ks, of revoked_ext "request_inst 1195000" ?c "demo_user ''u1''"] g
    by (simp add: demo_user_def respond_defs revoked_ext_def demo_ext_def demo_env_def truthy_def)
  with a g show ?thesis by simp
qed
text \<open>
  C4, amended. When the workspace id and the signing key are configured, the truck-access
  cache gives no list for the identity and the PlanetScale query returns no row,
  generateTinybirdToken throws the TinybirdError with status 404 and the handler answers
  404 with the body \<open>{ error: 'No truck registration numbers found for user <subject>' }\<close>;
  no credential is signed and the keyspace is left as it was.
\<close>

theorem no_rows_is_404:
  assumes pool: "redisPool w = pool_run (RedisConnectionPool cfg_min cfg_max) events"
      and cfg: "truthy (process_env ext ''TINYBIRD_WORKSPACE_ID'')"
               "truthy (process_env ext ''TINYBIRD_SIGNING_KEY'')"
      and nocache: "cachedTruckAccess ext (store w) (at_truck_get inst)
                      (''truck_access:'' @ user_userId user) = None"
      and empty: "getTruckAccessForUser ext (at_query inst) (user_userId user) = Inr []"
  shows "generateTinybirdToken ext (store w) inst (user_userId user) =
           (Inl (TinybirdError (''No truck registration numbers found for user '' @ user_userId user)
                   (Some 404)), store w)
         \<and> fst (proxyHandler ext w inst c user) =
             Inr \<lparr>res_status = 404,
                  res_body = ErrorJson
                    \<lparr>error = ''No truck registration numbers found for user '' @ user_userId user,
                     code = None, timestamp = None\<rparr>\<rparr>
         \<and> store (snd (proxyHandler ext w inst c user)) = store w"
proof -
  have ks: "kept_starved (redisPool w)" using pool kept_starved_booted by simp
  have t: "getTruckRegistrationNos ext (store w) inst (user_userId user) = (Inr [], store w)"
    using nocache empty by (simp add: getTruckRegistrationNos_def)
  have gen: "generateTinybirdToken ext (store w) inst (user_userId user) =
      (Inl (TinybirdError (''No truck registration numbers found for user '' @ user_userId user)
              (Some 404)), store w)"
    using cfg t by (simp add: generateTinybirdToken_def)
  from proxyHandler_starved[OF ks, of ext inst c user] gen show ?thesis
    by (simp add: respond_defs)
qed
theorem no_rows_is_404_witness:
  "redisPool empty_world = pool_run (RedisConnectionPool (Some 5) (Some 50)) []
   \<and> truthy (process_env demo_ext ''TINYBIRD_WORKSPACE_ID'')
   \<and> truthy (process_env demo_ext ''TINYBIRD_SIGNING_KEY'')
   \<and> cachedTruckAccess demo_ext (store empty_world) (at_truck_get (request_inst 995000))
        (''truck_access:'' @ user_userId (demo_user ''u2'')) = None
   \<and> getTruckAccessForUser demo_ext (at_query (request_inst 995000)) (user_userId (demo_user ''u2''))
        = Inr []
   \<and> fst (proxyHandler demo_ext empty_world (request_inst 995000)
            (demo_request [(''auth_token'', ''jwt-u2'')] []) (demo_user ''u2''))
       = Inr \<lparr>res_status = 404,
              res_body = ErrorJson \<lparr>error = ''No truck registration numbers found for user u2'',
                                    code = None, timestamp = None\<rparr>\<rparr>
   \<and> store (snd (proxyHandler demo_ext empty_world (request_inst 995000)
                    (demo_request [(''auth_token'', ''jwt-u2'')] []) (demo_user ''u2'')))
       = store empty_world"
proof -
  have p: "redisPool empty_world = pool_run (RedisConnectionPool (Some 5) (Some 50)) []"
    by (simp add: empty_world_def pool_run_def)
  have s0: "store empty_world = Map.empty" by (simp add: empty_world_def)
  have c1: "truthy (process_env demo_ext ''TINYBIRD_WORKSPACE_ID'')"
   and c2: "truthy (process_env demo_ext ''TINYBIRD_SIGNING_KEY'')"
    by (simp_all add: demo_ext_def demo_env_def truthy_def)
  have n: "cachedTruckAccess demo_ext (store empty_world) (at_truck_get (request_inst 995000))
        (''truck_access:'' @ user_userId (demo_user ''u2'')) = None"
    by (simp add: s0 demo_ext_def demo_user_def cachedTruckAccess_def getToken_def redis_get_def
          truthy_def)
  have e: "getTruckAccessForUser demo_ext (at_query (request_inst 995000))
             (user_userId (demo_user ''u2'')) = Inr []"
    by (simp add: demo_ext_def demo_user_def getTruckAccessForUser_def)
  from no_rows_is_404[OF p c1 c2 n e, of "demo_request [(''auth_token'', ''jwt-u2'')] []"]
    p c1 c2 n e
  show ?thesis by (simp add: demo_user_def)
qed
subsection \<open>Where the identity assertion is taken from\<close>

text \<open>
  C5. With the secret configured, the token that authMiddleware verifies, and whose
  decoded payload it hands to the next handler as the user, is the \<open>auth_token\<close> cookie
  when there is one; else the \<open>jwt\<close> cookie; else the \<open>access_token\<close> cookie; else what follows
  \<open>Bearer \<close> in the Authorization header. An earlier source with a token decides, whatever
  the later ones hold. When none of the four yields a non-empty token the middleware
  answers 401 with the code \<open>AUTH_ERROR\<close>, before the secret is read and without calling the
  next handler.
\<close>

theorem token_source_priority:
  "(truthy (process_env ext ''JWT_SECRET'')
      \<and> jwt_verify ext t (the (process_env ext ''JWT_SECRET'')) = Inr d
      \<and> truthy (decoded_userId d) \<and> t \<noteq> []
      \<and> (getCookie c ''auth_token'' = Some t
          \<or> \<not> truthy (getCookie c ''auth_token'') \<and> getCookie c ''jwt'' = Some t
          \<or> \<not> truthy (getCookie c ''auth_token'') \<and> \<not> truthy (getCookie c ''jwt'')
             \<and> getCookie c ''access_token'' = Some t
          \<or> \<not> truthy (getCookie c ''auth_token'') \<and> \<not> truthy (getCookie c ''jwt'')
             \<and> \<not> truthy (getCookie c ''access_token'')
             \<and> truthy (req_header c ''Authorization'')
             \<and> startsWith (the (req_header c ''Authorization'')) ''Bearer ''
             \<and> substring (the (req_header c ''Authorization'')) 7 = t)
    \<longrightarrow> authMiddleware ext now c next =
          next \<lparr>user_userId = the (decoded_userId d), user_claims = decoded_rest d\<rparr>)
   \<and> (\<not> truthy (getCookie c ''auth_token'') \<and> \<not> truthy (getCookie c ''jwt'')
        \<and> \<not> truthy (getCookie c ''access_token'')
        \<and> \<not> (truthy (req_header c ''Authorization'')
              \<and> startsWith (the (req_header c ''Authorization'')) ''Bearer ''
              \<and> substring (the (req_header c ''Authorization'')) 7 \<noteq> [])
        \<longrightarrow> authMiddleware ext now c next =
              \<lparr>res_status = 401,
               res_body = ErrorJson
                 \<lparr>error = ''Authentication required. Please provide a valid JWT token in cookies or Authorization header.'',
                  code = Some ''AUTH_ERROR'', timestamp = Some (toISOString ext now)\<rparr>\<rparr>)"
proof -
  have miss: "\<not> truthy (extractToken c) \<Longrightarrow> authMiddleware ext now c next =
              \<lparr>res_status = 401,
               res_body = ErrorJson
                 \<lparr>error = ''Authentication required. Please provide a valid JWT token in cookies or Authorization header.'',
                  code = Some ''AUTH_ERROR'', timestamp = Some (toISOString ext now)\<rparr>\<rparr>"
    by (simp add: authMiddleware_def authenticate_def auth_error_response_def)
  have none: "\<not> truthy (getCookie c ''auth_token'') \<and> \<not> truthy (getCookie c ''jwt'')
        \<and> \<not> truthy (getCookie c ''access_token'')
        \<and> \<not> (truthy (req_header c ''Authorization'')
              \<and> startsWith (the (req_header c ''Authorization'')) ''Bearer ''
              \<and> substring (the (req_header c ''Authorization'')) 7 \<noteq> [])
        \<Longrightarrow> \<not> truthy (extractToken c)"
    by (auto simp: extractToken_def js_or_def Let_def truthy_def split: option.splits)
  have hit: "extractToken c = Some t \<Longrightarrow> t \<noteq> [] \<Longrightarrow> truthy (process_env ext ''JWT_SECRET'')
      \<Longrightarrow> jwt_verify ext t (the (process_env ext ''JWT_SECRET'')) = Inr d
      \<Longrightarrow> truthy (decoded_userId d)
      \<Longrightarrow> authMiddleware ext now c next =
          next \<lparr>user_userId = the (decoded_userId d), user_claims = decoded_rest d\<rparr>"
    by (simp add: authMiddleware_def authenticate_def truthy_def)
  have src: "t \<noteq> [] \<Longrightarrow>
         (getCookie c ''auth_token'' = Some t
          \<or> \<not> truthy (getCookie c ''auth_token'') \<and> getCookie c ''jwt'' = Some t
          \<or> \<not> truthy (getCookie c ''auth_token'') \<and> \<not> truthy (getCookie c ''jwt'')
             \<and> getCookie c ''access_token'' = Some t
          \<or> \<not> truthy (getCookie c ''auth_token'') \<and> \<not> truthy (getCookie c ''jwt'')
             \<and> \<not> truthy (getCookie c ''access_token'')
             \<and> truthy (req_header c ''Authorization'')
             \<and> startsWith (the (req_header c ''Authorization'')) ''Bearer ''
             \<and> substring (the (req_header c ''Authorization'')) 7 = t)
         \<Longrightarrow> extractToken c = Some t"
    by (auto simp: extractToken_def js_or_def Let_def truthy_def split: option.splits)
  show ?thesis using miss none hit src by blast
qed
theorem token_source_priority_witness:
  "authMiddleware demo_ext 0
      (demo_request [(''auth_token'', ''jwt-u1''), (''jwt'', ''jwt-u2'')]
                    [(''authorization'', ''Bearer jwt-u2'')])
      (\<lambda>u. \<lparr>res_status = 200, res_body = UpstreamData (user_userId u)\<rparr>)
     = \<lparr>res_status = 200, res_body = UpstreamData ''u1''\<rparr>
   \<and> authMiddleware demo_ext 0
      (demo_request [(''access_token'', ''jwt-u1''), (''jwt'', ''jwt-u2'')] [])
      (\<lambda>u. \<lparr>res_status = 200, res_body = UpstreamData (user_userId u)\<rparr>)
     = \<lparr>res_status = 200, res_body = UpstreamData ''u2''\<rparr>
   \<and> authMiddleware demo_ext 0
      (demo_request [(''access_token'', ''jwt-u1'')] [(''authorization'', ''Bearer jwt-u2'')])
      (\<lambda>u. \<lparr>res_status = 200, res_body = UpstreamData (user_userId u)\<rparr>)
     = \<lparr>res_status = 200, res_body = UpstreamData ''u1''\<rparr>
   \<and> authMiddleware demo_ext 0
      (demo_request [] [(''authorization'', ''Bearer jwt-u2'')])
      (\<lambda>u. \<lparr>res_status = 200, res_body = UpstreamData (user_userId u)\<rparr>)
     = \<lparr>res_status = 200, res_body = UpstreamData ''u2''\<rparr>
   \<and> authMiddleware demo_ext 0 (demo_request [] [(''authorization'', ''Basic jwt-u2'')])
      (\<lambda>u. \<lparr>res_status = 200, res_body = UpstreamData (user_userId u)\<rparr>)
     = \<lparr>res_status = 401,
        res_body = ErrorJson
          \<lparr>error = ''Authentication required. Please provide a valid JWT token in cookies or Authorization header.'',
           code = Some ''AUTH_ERROR'', timestamp = Some ''2024-01-15T10:30:00.000Z''\<rparr>\<rparr>"
proof -
  let ?next = "\<lambda>u. \<lparr>res_status = 200, res_body = UpstreamData (user_userId u)\<rparr>"
  let ?d1 = "\<lparr>decoded_userId = Some ''u1'', decoded_rest = []\<rparr>"
  let ?d2 = "\<lparr>decoded_userId = Some ''u2'', decoded_rest = []\<rparr>"
  note defs = demo_ext_def demo_env_def demo_request_def getCookie_def req_header_def truthy_def
    startsWith_def substring_def toLowerCase_Authorization
  show ?thesis
    using token_source_priority[of demo_ext "''jwt-u1''" ?d1
            "demo_request [(''auth_token'', ''jwt-u1''), (''jwt'', ''jwt-u2'')]
                          [(''authorization'', ''Bearer jwt-u2'')]" 0 ?next]
          token_source_priority[of demo_ext "''jwt-u2''" ?d2
            "demo_request [(''access_token'', ''jwt-u1''), (''jwt'', ''jwt-u2'')] []" 0 ?next]
          token_source_priority[of demo_ext "''jwt-u1''" ?d1
            "demo_request [(''access_token'', ''jwt-u1'')] [(''authorization'', ''Bearer jwt-u2'')]"
            0 ?next]
          token_source_priority[of demo_ext "''jwt-u2''" ?d2
            "demo_request [] [(''authorization'', ''Bearer jwt-u2'')]" 0 ?next]
          token_source_priority[of demo_ext "''jwt-u2''" ?d2
            "demo_request [] [(''authorization'', ''Basic jwt-u2'')]" 0 ?next]
    by (simp add: defs)
qed
subsection \<open>The outgoing headers\<close>

subsection \<open>The shape of the error bodies\<close>

text \<open>
  C8. The claim: every failure response has a body with \<open>error\<close>, \<open>code\<close> and \<open>timestamp\<close>.
  The proxy handler answers every one of its own failures with \<open>{ error: ... }\<close> alone. For
  the user u2, who has no trucks, the response is 404 and its body has neither \<open>code\<close> nor
  \<open>timestamp\<close>; so it is, with status 500, for u1 when axios throws an axios error, and
  when it throws any other error.
\<close>

theorem handler_errors_lack_code_and_timestamp:
  "fst (proxyHandler demo_ext empty_world (request_inst 995000)
          (demo_request [(''auth_token'', ''jwt-u2'')] []) (demo_user ''u2''))
     = Inr \<lparr>res_status = 404,
            res_body = ErrorJson \<lparr>error = ''No truck registration numbers found for user u2'',
                                  code = None, timestamp = None\<rparr>\<rparr>
   \<and> fst (proxyHandler
            (demo_ext\<lparr>axios := \<lambda>out. Inl (AxiosError ''timeout of 30000ms exceeded'' None None)\<rparr>)
            empty_world (request_inst 995000)
            (demo_request [(''auth_token'', ''jwt-u1'')] []) (demo_user ''u1''))
     = Inr \<lparr>res_status = 500,
            res_body = ErrorJson \<lparr>error = ''Tinybird request failed: timeout of 30000ms exceeded'',
                                  code = None, timestamp = None\<rparr>\<rparr>
   \<and> fst (proxyHandler (demo_ext\<lparr>axios := \<lambda>out. Inl (Error ''Invalid URL'')\<rparr>)
            empty_world (request_inst 995000)
            (demo_request [(''auth_token'', ''jwt-u1'')] []) (demo_user ''u1''))
     = Inr \<lparr>res_status = 500,
            res_body = ErrorJson \<lparr>error = ''Internal server error'', code = None,
                                  timestamp = None\<rparr>\<rparr>"
proof -
  have s0: "store empty_world = Map.empty" by (simp add: empty_world_def)
  note ph = proxyHandler_starved[OF kept_starved_empty_world]
  show ?thesis
    using ph[of demo_ext "request_inst 995000" "demo_request [(''auth_token'', ''jwt-u2'')] []"
             "demo_user ''u2''"]
      ph[of "demo_ext\<lparr>axios := \<lambda>out. Inl (AxiosError ''timeout of 30000ms exceeded'' None None)\<rparr>"
            "request_inst 995000" "demo_request [(''auth_token'', ''jwt-u1'')] []" "demo_user ''u1''"]
      ph[of "demo_ext\<lparr>axios := \<lambda>out. Inl (Error ''Invalid URL'')\<rparr>"
            "request_inst 995000" "demo_request [(''auth_token'', ''jwt-u1'')] []" "demo_user ''u1''"]
      s0
    by (simp add: demo_ext_def demo_env_def demo_user_def request_inst_def fetch_defs respond_defs)
qed
subsection \<open>Failures of the cache layer\<close>

subsection \<open>The development fallback of the truck fetcher\<close>

text \<open>
  C10. When the truck-access cache gives no list and the PlanetScale query throws,
  getTruckRegistrationNos returns the two hardcoded registration numbers if \<open>NODE_ENV\<close> is
  \<open>development\<close>, and otherwise rethrows the error of getTruckAccessForUser. In development,
  with the workspace id and the signing key configured, generateTinybirdToken therefore
  signs, for any user, the payload whose two scopes, on the pipes \<open>truck_history_endpoint\<close>
  and \<open>truck_location_endpoint\<close>, are fixed to those two trucks, and returns the signed
  token.
\<close>

theorem development_fallback:
  assumes nocache: "cachedTruckAccess ext r (at_truck_get inst) (''truck_access:'' @ userId) = None"
      and throws: "conn_execute ext userId (at_query inst) = Inl e"
  shows "getTruckRegistrationNos ext r inst userId =
           (if process_env ext ''NODE_ENV'' = Some ''development''
            then (Inr [''HT56E4521'', ''HR05G5555''], r)
            else (Inl (PlanetScaleError (''Failed to fetch truck access: '' @ message e)), r))
         \<and> (process_env ext ''NODE_ENV'' = Some ''development''
               \<and> truthy (process_env ext ''TINYBIRD_WORKSPACE_ID'')
               \<and> truthy (process_env ext ''TINYBIRD_SIGNING_KEY'')
            \<longrightarrow> generateTinybirdToken ext r inst userId =
                   (case jwt_sign ext
                           \<lparr>workspace_id = the (process_env ext ''TINYBIRD_WORKSPACE_ID''),
                            name = ''user_'' @ userId @ ''_jwt'',
                            exp = at_sign inst div 1000 + 3600,
                            scopes =
                              [\<lparr>scope_type = ''PIPES:READ'', resource = ''truck_history_endpoint'',
                                fixed_params_registrationNo = [''HT56E4521'', ''HR05G5555'']\<rparr>,
                               \<lparr>scope_type = ''PIPES:READ'', resource = ''truck_location_endpoint'',
                                fixed_params_registrationNo = [''HT56E4521'', ''HR05G5555'']\<rparr>],
                            limits_rps = 1\<rparr>
                           (the (process_env ext ''TINYBIRD_SIGNING_KEY'')) of
                      Inl e' \<Rightarrow> (Inl (asTinybirdError e'), r)
                    | Inr token \<Rightarrow> (Inr token, r)))"
proof -
  have t: "getTruckRegistrationNos ext r inst userId =
           (if process_env ext ''NODE_ENV'' = Some ''development''
            then (Inr [''HT56E4521'', ''HR05G5555''], r)
            else (Inl (PlanetScaleError (''Failed to fetch truck access: '' @ message e)), r))"
    using nocache throws by (simp add: getTruckRegistrationNos_def getTruckAccessForUser_def)
  then show ?thesis
    by (auto simp: generateTinybirdToken_def jwtPayload_def split: sum.splits)
qed
theorem development_fallback_witness:
  "cachedTruckAccess (demo_ext\<lparr>process_env := demo_env(''NODE_ENV'' \<mapsto> ''development'')\<rparr>)
      Map.empty (at_truck_get (demo_inst 0)) (''truck_access:'' @ ''u9'') = None
   \<and> conn_execute (demo_ext\<lparr>process_env := demo_env(''NODE_ENV'' \<mapsto> ''development'')\<rparr>)
        ''u9'' (at_query (demo_inst 0)) = Inl (Error ''connect ECONNREFUSED'')
   \<and> getTruckRegistrationNos (demo_ext\<lparr>process_env := demo_env(''NODE_ENV'' \<mapsto> ''development'')\<rparr>)
        Map.empty (demo_inst 0) ''u9'' = (Inr [''HT56E4521'', ''HR05G5555''], Map.empty)
   \<and> generateTinybirdToken
            (demo_ext\<lparr>process_env := demo_env(''NODE_ENV'' \<mapsto> ''development'')\<rparr>)
            Map.empty (demo_inst 0) ''u9'' = (Inr ''token-B'', Map.empty)
   \<and> conn_execute demo_ext ''u9'' (at_query (demo_inst 0)) = Inl (Error ''connect ECONNREFUSED'')
   \<and> getTruckRegistrationNos demo_ext Map.empty (demo_inst 0) ''u9''
       = (Inl (PlanetScaleError ''Failed to fetch truck access: connect ECONNREFUSED''), Map.empty)"
  using development_fallback
          [of "demo_ext\<lparr>process_env := demo_env(''NODE_ENV'' \<mapsto> ''development'')\<rparr>"
              Map.empty "demo_inst 0" "''u9''" "Error ''connect ECONNREFUSED''"]
        development_fallback
          [of demo_ext Map.empty "demo_inst 0" "''u9''" "Error ''connect ECONNREFUSED''"]
  by (simp add: demo_ext_def demo_env_def demo_inst_def cachedTruckAccess_def getToken_def
        redis_get_def truthy_def)

end
